theory Spec2Isabelle
  imports Main "HOL-Library.Word" "HOL-Library.Log_Nat"
begin

section \<open>The library catalogue service\<close>

text \<open>
  The repository holds three versions of one Express service over an SQLite file:
  \<^item> \<^verbatim>\<open>src/index.js\<close>: the \<^verbatim>\<open>sqlite3\<close> driver with callbacks (definitions without suffix);
  \<^item> \<^verbatim>\<open>src/unnamed/part_000\<close>, lines 1-193: the \<^verbatim>\<open>better-sqlite3\<close> driver, synchronous
    (suffix \<open>_v2\<close>);
  \<^item> \<^verbatim>\<open>src/unnamed/part_000\<close>, lines 194-337: an \<^verbatim>\<open>sqlite3\<close> version without validation,
    pagination or constraints (suffix \<open>_v3\<close>).

  The SQL engine is not part of the repository. Each statement the handlers issue is
  modelled by a function on the three tables, following SQLite's documented behaviour.
  Scope of the model:
  \<^item> request bodies carry fields of the types of the data model (strings and integers);
    a field that is absent or \<^verbatim>\<open>null\<close> is \<open>None\<close>;
  \<^item> the path parameter \<^verbatim>\<open>:id\<close> is a decimal integer;
  \<^item> the query parameters \<^verbatim>\<open>page\<close> and \<^verbatim>\<open>limit\<close> are decimal integers of the signed
    32-bit range, the range in which the \<^verbatim>\<open>sqlite3\<close> driver binds a number as an
    \<^verbatim>\<open>INTEGER\<close>; the numbers computed from them are doubles, rounded as JavaScript
    rounds them;
  \<^item> a \<^verbatim>\<open>SELECT\<close> fails only when a bound \<^verbatim>\<open>LIMIT\<close> or \<^verbatim>\<open>OFFSET\<close> is no 64-bit
    integer; \<^verbatim>\<open>INSERT\<close> and \<^verbatim>\<open>UPDATE\<close> fail on a constraint;
  \<^item> statements issued inside \<^verbatim>\<open>db.serialize\<close>, or through \<^verbatim>\<open>better-sqlite3\<close>, run
    one after the other in the order of the code; statements issued from a callback
    of the \<^verbatim>\<open>sqlite3\<close> driver outside \<^verbatim>\<open>serialize\<close> run in an order that the code does
    not fix, which the model takes as a parameter;
  \<^item> a join without \<^verbatim>\<open>ORDER BY\<close> yields its rows in the order of the books table;
  \<^item> keys are unbounded integers: the error of a table whose largest 64-bit key is
    taken is not modelled.

  The path parameter \<^verbatim>\<open>id\<close> is written \<open>ident\<close>, since \<open>id\<close> is the identity
  function of HOL.
\<close>

subsection \<open>Tables\<close>

record author_row =
  a_authorid :: int
  a_name :: string

record genre_row =
  g_genreid :: int
  g_name :: string
  g_description :: "string option"

record book_row =
  b_bookid :: int
  b_title :: "string option"
  b_authorid :: "int option"
  b_genreid :: "int option"
  b_pages :: "int option"
  b_publishedDate :: "string option"

text \<open>
  The three tables, and for each the counter that \<^verbatim>\<open>AUTOINCREMENT\<close> keeps in
  \<^verbatim>\<open>sqlite_sequence\<close>.
\<close>

record database =
  authors :: "author_row list"
  genres :: "genre_row list"
  books :: "book_row list"
  seq_authors :: int
  seq_genres :: int
  seq_books :: int

definition empty_db :: database where
  "empty_db = \<lparr>authors = [], genres = [], books = [],
                seq_authors = 0, seq_genres = 0, seq_books = 0\<rparr>"

text \<open>
  What differs between the \<^verbatim>\<open>CREATE TABLE\<close> statements and pragmas of the versions:
  whether foreign keys are enforced and whether \<^verbatim>\<open>books.title\<close> is \<^verbatim>\<open>NOT NULL\<close>.
\<close>

record schema =
  foreign_keys :: bool
  title_not_null :: bool

definition index_schema :: schema where
  "index_schema = \<lparr>foreign_keys = True, title_not_null = True\<rparr>"

definition v3_schema :: schema where
  "v3_schema = \<lparr>foreign_keys = False, title_not_null = False\<rparr>"

datatype sql_error = ForeignKeyFailed | NotNullFailed | Mismatch

fun message :: "sql_error \<Rightarrow> string" where
  "message ForeignKeyFailed = ''SQLITE_CONSTRAINT: FOREIGN KEY constraint failed''"
| "message NotNullFailed = ''SQLITE_CONSTRAINT: NOT NULL constraint failed: books.title''"
| "message Mismatch = ''SQLITE_MISMATCH: datatype mismatch''"

subsection \<open>Statements\<close>

text \<open>
  \<^verbatim>\<open>INTEGER PRIMARY KEY AUTOINCREMENT\<close>: the new key is one more than the largest key
  the table ever held.
\<close>

definition max_rowid :: "int list \<Rightarrow> int" where
  "max_rowid ids = fold max ids 0"

definition new_rowid :: "int \<Rightarrow> int list \<Rightarrow> int" where
  "new_rowid seq ids = max seq (max_rowid ids) + 1"

text \<open>
  \<^verbatim>\<open>INSERT OR IGNORE INTO authors (name) VALUES (?)\<close>, with \<^verbatim>\<open>name TEXT UNIQUE NOT NULL\<close>:
  a name already there skips the row. The key is drawn before the constraint is
  checked, so the counter moves in both cases.
\<close>

definition sql_insert_or_ignore_author :: "string \<Rightarrow> database \<Rightarrow> database" where
  "sql_insert_or_ignore_author n db =
     (let k = new_rowid (seq_authors db) (map a_authorid (authors db)) in
      if n \<in> set (map a_name (authors db)) then db\<lparr>seq_authors := k\<rparr>
      else db\<lparr>authors := authors db @ [\<lparr>a_authorid = k, a_name = n\<rparr>], seq_authors := k\<rparr>)"

definition sql_insert_or_ignore_genre :: "string \<Rightarrow> string \<Rightarrow> database \<Rightarrow> database" where
  "sql_insert_or_ignore_genre n d db =
     (let k = new_rowid (seq_genres db) (map g_genreid (genres db)) in
      if n \<in> set (map g_name (genres db)) then db\<lparr>seq_genres := k\<rparr>
      else db\<lparr>genres := genres db @ [\<lparr>g_genreid = k, g_name = n, g_description = Some d\<rparr>],
               seq_genres := k\<rparr>)"

text \<open>Plain \<^verbatim>\<open>INSERT\<close> into tables without constraints (third version).\<close>

definition sql_insert_author :: "string \<Rightarrow> database \<Rightarrow> database" where
  "sql_insert_author n db =
     (let k = new_rowid (seq_authors db) (map a_authorid (authors db)) in
      db\<lparr>authors := authors db @ [\<lparr>a_authorid = k, a_name = n\<rparr>], seq_authors := k\<rparr>)"

definition sql_insert_genre :: "string \<Rightarrow> string \<Rightarrow> database \<Rightarrow> database" where
  "sql_insert_genre n d db =
     (let k = new_rowid (seq_genres db) (map g_genreid (genres db)) in
      db\<lparr>genres := genres db @ [\<lparr>g_genreid = k, g_name = n, g_description = Some d\<rparr>],
         seq_genres := k\<rparr>)"

text \<open>A foreign key holds when the column is \<^verbatim>\<open>NULL\<close> or names a row of the parent table.\<close>

definition fk_ok :: "database \<Rightarrow> int option \<Rightarrow> int option \<Rightarrow> bool" where
  "fk_ok db a g =
     ((case a of None \<Rightarrow> True | Some i \<Rightarrow> i \<in> set (map a_authorid (authors db))) \<and>
      (case g of None \<Rightarrow> True | Some i \<Rightarrow> i \<in> set (map g_genreid (genres db))))"

text \<open>
  \<^verbatim>\<open>INSERT INTO books (title, authorid, genreid, pages, publishedDate) VALUES (?, ?, ?, ?, ?)\<close>:
  the result is the error, or \<^verbatim>\<open>lastID\<close> and the new state.
\<close>

definition sql_insert_book ::
  "schema \<Rightarrow> database \<Rightarrow> string option \<Rightarrow> int option \<Rightarrow> int option \<Rightarrow> int option
     \<Rightarrow> string option \<Rightarrow> sql_error + (int \<times> database)" where
  "sql_insert_book sc db t a g p d =
     (if title_not_null sc \<and> t = None then Inl NotNullFailed
      else if foreign_keys sc \<and> \<not> fk_ok db a g then Inl ForeignKeyFailed
      else
        let k = new_rowid (seq_books db) (map b_bookid (books db)) in
        Inr (k, db\<lparr>books := books db @
                     [\<lparr>b_bookid = k, b_title = t, b_authorid = a, b_genreid = g,
                       b_pages = p, b_publishedDate = d\<rparr>],
                   seq_books := k\<rparr>))"

text \<open>
  \<^verbatim>\<open>INSERT OR IGNORE INTO books (...)\<close>: the books table has no \<^verbatim>\<open>UNIQUE\<close> column besides
  the generated key, so only \<^verbatim>\<open>NOT NULL\<close> can skip a row; a foreign key failure is
  not subject to \<^verbatim>\<open>OR IGNORE\<close>.
\<close>

definition sql_insert_or_ignore_book ::
  "schema \<Rightarrow> database \<Rightarrow> string option \<Rightarrow> int option \<Rightarrow> int option \<Rightarrow> int option
     \<Rightarrow> string option \<Rightarrow> sql_error + database" where
  "sql_insert_or_ignore_book sc db t a g p d =
     (let k = new_rowid (seq_books db) (map b_bookid (books db)) in
      if title_not_null sc \<and> t = None then Inr (db\<lparr>seq_books := k\<rparr>)
      else if foreign_keys sc \<and> \<not> fk_ok db a g then Inl ForeignKeyFailed
      else Inr (db\<lparr>books := books db @
                     [\<lparr>b_bookid = k, b_title = t, b_authorid = a, b_genreid = g,
                       b_pages = p, b_publishedDate = d\<rparr>],
                   seq_books := k\<rparr>))"

text \<open>
  \<^verbatim>\<open>UPDATE books SET title = ?, authorid = ?, genreid = ?, pages = ?, publishedDate = ?
  WHERE bookid = ?\<close>: the result is the error, or \<^verbatim>\<open>changes\<close> and the new state.
  Constraints are checked on the rows that match only.
\<close>

definition sql_update_book ::
  "schema \<Rightarrow> database \<Rightarrow> string option \<Rightarrow> int option \<Rightarrow> int option \<Rightarrow> int option
     \<Rightarrow> string option \<Rightarrow> int \<Rightarrow> sql_error + (nat \<times> database)" where
  "sql_update_book sc db t a g p d ident =
     (let n = length (filter (\<lambda>b. b_bookid b = ident) (books db)) in
      if n = 0 then Inr (0, db)
      else if title_not_null sc \<and> t = None then Inl NotNullFailed
      else if foreign_keys sc \<and> \<not> fk_ok db a g then Inl ForeignKeyFailed
      else Inr (n, db\<lparr>books := map (\<lambda>b. if b_bookid b = ident
                                         then b\<lparr>b_title := t, b_authorid := a, b_genreid := g,
                                                b_pages := p, b_publishedDate := d\<rparr>
                                         else b) (books db)\<rparr>))"

text \<open>\<^verbatim>\<open>DELETE FROM books WHERE bookid = ?\<close>: \<^verbatim>\<open>changes\<close> and the new state.\<close>

definition sql_delete_book :: "database \<Rightarrow> int \<Rightarrow> nat \<times> database" where
  "sql_delete_book db ident =
     (length (filter (\<lambda>b. b_bookid b = ident) (books db)),
      db\<lparr>books := filter (\<lambda>b. b_bookid b \<noteq> ident) (books db)\<rparr>)"

text \<open>
  \<^verbatim>\<open>FROM books b JOIN authors a ON b.authorid = a.authorid JOIN genres g ON b.genreid = g.genreid\<close>
  over the book rows \<open>bs\<close>: an inner join, so a \<^verbatim>\<open>NULL\<close> or unmatched key drops the book.
\<close>

definition books_join ::
  "database \<Rightarrow> book_row list \<Rightarrow> (book_row \<times> author_row \<times> genre_row) list" where
  "books_join db bs =
     [(b, a, g). b \<leftarrow> bs,
                 a \<leftarrow> authors db, b_authorid b = Some (a_authorid a),
                 g \<leftarrow> genres db, b_genreid b = Some (g_genreid g)]"

text \<open>\<^verbatim>\<open>SELECT DISTINCT\<close>: the first of equal rows stays.\<close>

definition sql_distinct :: "'a list \<Rightarrow> 'a list" where
  "sql_distinct xs = rev (remdups (rev xs))"

text \<open>
  \<^verbatim>\<open>LIMIT ? OFFSET ?\<close>: a negative limit is no limit, a negative offset is offset 0.
\<close>

definition sql_limit_offset :: "int \<Rightarrow> int \<Rightarrow> 'a list \<Rightarrow> 'a list" where
  "sql_limit_offset lmt off xs =
     (let ys = drop (nat off) xs in if lmt < 0 then ys else take (nat lmt) ys)"

text \<open>
  A number bound to \<^verbatim>\<open>LIMIT ?\<close> or \<^verbatim>\<open>OFFSET ?\<close> must be a 64-bit integer. The driver
  binds a number outside the 32-bit range as a \<^verbatim>\<open>REAL\<close>, which the engine takes when
  it is integral and strictly inside the 64-bit range; otherwise the statement fails
  with \<^verbatim>\<open>SQLITE_MISMATCH\<close>.
\<close>

definition sqlite_integer :: "int \<Rightarrow> bool" where
  "sqlite_integer v = (- (2 ^ 63) < v \<and> v < 2 ^ 63 - 1)"

subsection \<open>JavaScript numbers\<close>

text \<open>
  A JavaScript number is a double. \<open>js_round n\<close> is the double nearest to the integer
  \<open>n\<close>, ties going to the even mantissa of 53 bits: an integer up to \<^verbatim>\<open>2^53\<close> in
  magnitude is a double, a larger one loses its low bits. Subtraction and
  multiplication of numbers round the exact result.
\<close>

definition js_round :: "int \<Rightarrow> int" where
  "js_round n =
     (if \<bar>n\<bar> \<le> 2 ^ 53 then n
      else
        let u = 2 ^ nat (bitlen \<bar>n\<bar> - 53); q = \<bar>n\<bar> div u; r = \<bar>n\<bar> mod u;
            q' = (if u < 2 * r \<or> (u = 2 * r \<and> odd q) then q + 1 else q)
        in sgn n * (q' * u))"

definition js_sub :: "int \<Rightarrow> int \<Rightarrow> int" where
  "js_sub a b = js_round (a - b)"

definition js_mul :: "int \<Rightarrow> int \<Rightarrow> int" where
  "js_mul a b = js_round (a * b)"

subsection \<open>Requests and responses\<close>

datatype json =
    JNull
  | JNum int
  | JStr string
  | JObj (members: "(string \<times> json) list")
  | JArr (elements: "json list")

datatype response = Response (status: nat) (body: json)

fun json_text :: "string option \<Rightarrow> json" where
  "json_text None = JNull"
| "json_text (Some s) = JStr s"

fun json_int :: "int option \<Rightarrow> json" where
  "json_int None = JNull"
| "json_int (Some i) = JNum i"

text \<open>The JSON body of \<^verbatim>\<open>POST /books\<close> and \<^verbatim>\<open>PUT /books/:id\<close>.\<close>

record book_body =
  title :: "string option"
  authorid :: "int option"
  genreid :: "int option"
  pages :: "int option"
  publishedDate :: "string option"

text \<open>
  The query string of \<^verbatim>\<open>GET /books\<close>: each parameter is absent or the decimal string
  of a signed 32-bit integer.
\<close>

record book_query =
  page :: "32 word option"
  limit :: "32 word option"

text \<open>
  JavaScript's \<^verbatim>\<open>!x\<close> is false exactly for a truthy \<open>x\<close>: \<^verbatim>\<open>undefined\<close>, \<^verbatim>\<open>null\<close>, \<^verbatim>\<open>0\<close>
  and \<^verbatim>\<open>""\<close> are not truthy.
\<close>

fun truthy_str :: "string option \<Rightarrow> bool" where
  "truthy_str None = False"
| "truthy_str (Some s) = (s \<noteq> [])"

fun truthy_num :: "int option \<Rightarrow> bool" where
  "truthy_num None = False"
| "truthy_num (Some i) = (i \<noteq> 0)"

text \<open>The columns selected by the detail route and by the list route.\<close>

definition book_json :: "book_row \<times> author_row \<times> genre_row \<Rightarrow> json" where
  "book_json r = (case r of (b, a, g) \<Rightarrow>
     JObj [(''bookid'', JNum (b_bookid b)), (''title'', json_text (b_title b)),
           (''author'', JStr (a_name a)), (''genre'', JStr (g_name g)),
           (''pages'', json_int (b_pages b)),
           (''publishedDate'', json_text (b_publishedDate b))])"

definition book_list_json :: "book_row \<times> author_row \<times> genre_row \<Rightarrow> json" where
  "book_list_json r = (case r of (b, a, g) \<Rightarrow>
     JObj [(''bookid'', JNum (b_bookid b)), (''title'', json_text (b_title b)),
           (''author'', JStr (a_name a)), (''genre'', JStr (g_name g)),
           (''pages'', json_int (b_pages b)),
           (''publishedDate'', json_text (b_publishedDate b)),
           (''authorid'', json_int (b_authorid b)), (''genreid'', json_int (b_genreid b))])"

definition author_json :: "author_row \<Rightarrow> json" where
  "author_json a = JObj [(''authorid'', JNum (a_authorid a)), (''name'', JStr (a_name a))]"

definition genre_json :: "genre_row \<Rightarrow> json" where
  "genre_json g = JObj [(''genreid'', JNum (g_genreid g)), (''name'', JStr (g_name g)),
                        (''description'', json_text (g_description g))]"

subsection \<open>Handlers of \<^verbatim>\<open>src/index.js\<close>\<close>

definition errorResponse :: "nat \<Rightarrow> string \<Rightarrow> response" where
  "errorResponse st msg = Response st (JObj [(''error'', JStr msg)])"

text \<open>
  \<^verbatim>\<open>const { page = 1, limit = 10 } = req.query; const offset = (page - 1) * limit;\<close>
  and the parameters \<^verbatim>\<open>[parseInt(limit), parseInt(offset)]\<close> bound to \<^verbatim>\<open>LIMIT ? OFFSET ?\<close>.
  The operators turn the strings into numbers and round. \<^verbatim>\<open>parseInt\<close> of the string
  \<^verbatim>\<open>limit\<close> is its value; \<^verbatim>\<open>parseInt\<close> of the number \<^verbatim>\<open>offset\<close> reads the decimal
  string of the number, which gives the number back as long as it is below \<^verbatim>\<open>1e21\<close> in
  magnitude, as every offset computed from 32-bit parameters is (lemma
  \<open>offset_in_range\<close>).
\<close>

definition page_params :: "book_query \<Rightarrow> int \<times> int" where
  "page_params q =
     (let pg = (case page q of None \<Rightarrow> 1 | Some v \<Rightarrow> sint v);
          lmt = (case limit q of None \<Rightarrow> 10 | Some v \<Rightarrow> sint v);
          offset = js_mul (js_sub pg 1) lmt
      in (lmt, offset))"

text \<open>
  The list query of \<^verbatim>\<open>src/index.js\<close> and of the \<^verbatim>\<open>better-sqlite3\<close> version:
  \<^verbatim>\<open>SELECT DISTINCT ... LIMIT ? OFFSET ?\<close> over the join.
\<close>

definition sql_select_books_page :: "database \<Rightarrow> int \<Rightarrow> int \<Rightarrow> sql_error + json list" where
  "sql_select_books_page db lmt offset =
     (if \<not> sqlite_integer lmt \<or> \<not> sqlite_integer offset then Inl Mismatch
      else Inr (sql_limit_offset lmt offset
                  (sql_distinct (map book_list_json (books_join db (books db))))))"

definition get_books :: "database \<Rightarrow> book_query \<Rightarrow> response \<times> database" where
  "get_books db q =
     (case page_params q of (lmt, offset) \<Rightarrow>
        (case sql_select_books_page db lmt offset of
           Inl err \<Rightarrow> (Response 500 (JObj [(''error'', JStr (message err))]), db)
         | Inr rows \<Rightarrow> (Response 200 (JArr rows), db)))"

definition get_book :: "database \<Rightarrow> int \<Rightarrow> response \<times> database" where
  "get_book db ident =
     (case books_join db (filter (\<lambda>b. b_bookid b = ident) (books db)) of
        [] \<Rightarrow> (errorResponse 404 ''Book not found'', db)
      | row # _ \<Rightarrow> (Response 200 (book_json row), db))"

definition post_books :: "database \<Rightarrow> book_body \<Rightarrow> response \<times> database" where
  "post_books db bd =
     (if \<not> truthy_str (title bd) \<or> \<not> truthy_num (authorid bd) \<or> \<not> truthy_num (genreid bd)
         \<or> \<not> truthy_num (pages bd) \<or> \<not> truthy_str (publishedDate bd)
      then (errorResponse 400 ''All fields are required'', db)
      else
        case sql_insert_book index_schema db (title bd) (authorid bd) (genreid bd) (pages bd)
               (publishedDate bd) of
          Inl err \<Rightarrow> (errorResponse 500 (message err), db)
        | Inr (lastID, db') \<Rightarrow> (Response 201 (JObj [(''bookid'', JNum lastID)]), db'))"

definition put_books :: "database \<Rightarrow> int \<Rightarrow> book_body \<Rightarrow> response \<times> database" where
  "put_books db ident bd =
     (if \<not> truthy_str (title bd) \<or> \<not> truthy_num (authorid bd) \<or> \<not> truthy_num (genreid bd)
         \<or> \<not> truthy_num (pages bd) \<or> \<not> truthy_str (publishedDate bd)
      then (errorResponse 400 ''All fields are required'', db)
      else
        case sql_update_book index_schema db (title bd) (authorid bd) (genreid bd) (pages bd)
               (publishedDate bd) ident of
          Inl err \<Rightarrow> (errorResponse 500 (message err), db)
        | Inr (changes, db') \<Rightarrow>
            if changes = 0 then (errorResponse 404 ''Book not found'', db')
            else (Response 200 (JObj [(''message'', JStr ''Book updated successfully'')]), db'))"

definition delete_books :: "database \<Rightarrow> int \<Rightarrow> response \<times> database" where
  "delete_books db ident =
     (case sql_delete_book db ident of (changes, db') \<Rightarrow>
        if changes = 0 then (errorResponse 404 ''Book not found'', db')
        else (Response 200 (JObj [(''message'', JStr ''Book deleted successfully'')]), db'))"

definition get_authors :: "database \<Rightarrow> response \<times> database" where
  "get_authors db = (Response 200 (JArr (map author_json (authors db))), db)"

definition get_genres :: "database \<Rightarrow> response \<times> database" where
  "get_genres db = (Response 200 (JArr (map genre_json (genres db))), db)"

text \<open>The routes registered on \<^verbatim>\<open>app\<close>.\<close>

datatype request =
    GetBooks book_query
  | GetBook int
  | PostBooks book_body
  | PutBooks int book_body
  | DeleteBooks int
  | GetAuthors
  | GetGenres

fun handle :: "database \<Rightarrow> request \<Rightarrow> response \<times> database" where
  "handle db (GetBooks q) = get_books db q"
| "handle db (GetBook ident) = get_book db ident"
| "handle db (PostBooks bd) = post_books db bd"
| "handle db (PutBooks ident bd) = put_books db ident bd"
| "handle db (DeleteBooks ident) = delete_books db ident"
| "handle db GetAuthors = get_authors db"
| "handle db GetGenres = get_genres db"

subsection \<open>Schema initialization and seeding of \<^verbatim>\<open>src/index.js\<close>\<close>

record seed_book =
  sb_title :: string
  sb_author :: string
  sb_genre :: string
  sb_pages :: int
  sb_publishedDate :: string

definition seed_authors :: "string list" where
  "seed_authors = [''J.K. Rowling'', ''George Orwell'', ''J.R.R. Tolkien'', ''Harper Lee'']"

definition seed_genres :: "(string \<times> string) list" where
  "seed_genres =
     [(''Fantasy'', ''A genre of speculative fiction involving magic and mythical creatures''),
      (''Dystopian'',
       ''A genre of speculative fiction set in a futuristic society with oppression and control''),
      (''Fiction'', ''A genre of narrative fiction based on real-life experiences'')]"

definition seed_books :: "seed_book list" where
  "seed_books =
     [\<lparr>sb_title = ''Harry Potter and the Sorcerer's Stone'', sb_author = ''J.K. Rowling'',
       sb_genre = ''Fantasy'', sb_pages = 309, sb_publishedDate = ''1997-06-26''\<rparr>,
      \<lparr>sb_title = ''1984'', sb_author = ''George Orwell'',
       sb_genre = ''Dystopian'', sb_pages = 328, sb_publishedDate = ''1949-06-08''\<rparr>,
      \<lparr>sb_title = ''The Hobbit'', sb_author = ''J.R.R. Tolkien'',
       sb_genre = ''Fantasy'', sb_pages = 310, sb_publishedDate = ''1937-09-21''\<rparr>,
      \<lparr>sb_title = ''To Kill a Mockingbird'', sb_author = ''Harper Lee'',
       sb_genre = ''Fiction'', sb_pages = 324, sb_publishedDate = ''1960-07-11''\<rparr>]"

text \<open>
  \<^verbatim>\<open>SELECT a.authorid, g.genreid FROM authors a, genres g WHERE a.name = ? AND g.name = ?\<close>
  read with \<^verbatim>\<open>db.get\<close>: the first row, if any.
\<close>

definition select_author_genre :: "database \<Rightarrow> string \<Rightarrow> string \<Rightarrow> (int \<times> int) option" where
  "select_author_genre db author genre =
     (case [(a_authorid a, g_genreid g). a \<leftarrow> authors db, g \<leftarrow> genres db,
                                        a_name a = author \<and> g_name g = genre] of
        [] \<Rightarrow> None
      | row # _ \<Rightarrow> Some row)"

text \<open>
  The callback of each lookup: \<^verbatim>\<open>if (row) db.run(INSERT OR IGNORE INTO books ...)\<close>.
  The insert has no callback, so its error is dropped.
\<close>

definition seed_book_callback :: "seed_book \<times> (int \<times> int) option \<Rightarrow> database \<Rightarrow> database" where
  "seed_book_callback x db =
     (case x of
        (sb, None) \<Rightarrow> db
      | (sb, Some (aid, gid)) \<Rightarrow>
          (case sql_insert_or_ignore_book index_schema db (Some (sb_title sb)) (Some aid)
                  (Some gid) (Some (sb_pages sb)) (Some (sb_publishedDate sb)) of
             Inl err \<Rightarrow> db
           | Inr db' \<Rightarrow> db'))"

text \<open>
  An order in which \<open>n\<close> queued statements run: each of the indices \<open>0\<close> to \<open>n - 1\<close>
  once.
\<close>

definition is_order :: "nat \<Rightarrow> nat list \<Rightarrow> bool" where
  "is_order n order = (distinct order \<and> set order = {0..<n})"

text \<open>
  The body of \<^verbatim>\<open>db.serialize\<close>: \<^verbatim>\<open>CREATE TABLE IF NOT EXISTS\<close> changes no row; the
  author and genre inserts run; the four lookups run, queued inside \<^verbatim>\<open>serialize\<close>. The
  callbacks of the lookups issue their inserts after \<^verbatim>\<open>serialize\<close> has returned, and
  the driver runs these in parallel: \<open>order\<close> lists the seed books in the order in
  which their inserts reach the table (\<open>is_order 4 order\<close>; \<open>source_order\<close> is the
  order of the array).
\<close>

definition initialize :: "nat list \<Rightarrow> database \<Rightarrow> database" where
  "initialize order db =
     (let db1 = fold sql_insert_or_ignore_author seed_authors db;
          db2 = fold (\<lambda>(n, d). sql_insert_or_ignore_genre n d) seed_genres db1;
          rows = map (\<lambda>sb. (sb, select_author_genre db2 (sb_author sb) (sb_genre sb))) seed_books
      in fold seed_book_callback (map (\<lambda>i. rows ! i) order) db2)"

definition source_order :: "nat list" where
  "source_order = [0, 1, 2, 3]"

subsection \<open>The \<^verbatim>\<open>better-sqlite3\<close> version (\<^verbatim>\<open>part_000\<close>, lines 1-193)\<close>

text \<open>
  A statement that fails throws. Inside a handler the exception reaches the default error
  handler of Express, which answers 500 with a page that is not JSON (here \<open>JNull\<close>).
\<close>

definition uncaught :: "sql_error \<Rightarrow> response" where
  "uncaught err = Response 500 JNull"

definition select_authorid :: "database \<Rightarrow> string \<Rightarrow> int option" where
  "select_authorid db n =
     (case filter (\<lambda>a. a_name a = n) (authors db) of [] \<Rightarrow> None | a # _ \<Rightarrow> Some (a_authorid a))"

definition select_genreid :: "database \<Rightarrow> string \<Rightarrow> int option" where
  "select_genreid db n =
     (case filter (\<lambda>g. g_name g = n) (genres db) of [] \<Rightarrow> None | g # _ \<Rightarrow> Some (g_genreid g))"

fun seed_books_v2 :: "seed_book list \<Rightarrow> database \<Rightarrow> sql_error + database" where
  "seed_books_v2 [] db = Inr db"
| "seed_books_v2 (sb # rest) db =
     (case (select_authorid db (sb_author sb), select_genreid db (sb_genre sb)) of
        (Some aid, Some gid) \<Rightarrow>
          (case sql_insert_or_ignore_book index_schema db (Some (sb_title sb)) (Some aid)
                  (Some gid) (Some (sb_pages sb)) (Some (sb_publishedDate sb)) of
             Inl err \<Rightarrow> Inl err
           | Inr db' \<Rightarrow> seed_books_v2 rest db')
      | _ \<Rightarrow> seed_books_v2 rest db)"

text \<open>
  The whole setup is one transaction inside \<^verbatim>\<open>try\<close>: an exception rolls everything back
  and is logged.
\<close>

definition initialize_v2 :: "database \<Rightarrow> database" where
  "initialize_v2 db =
     (let db1 = fold sql_insert_or_ignore_author seed_authors db;
          db2 = fold (\<lambda>(n, d). sql_insert_or_ignore_genre n d) seed_genres db1
      in case seed_books_v2 seed_books db2 of Inl err \<Rightarrow> db | Inr db' \<Rightarrow> db')"


definition get_book_v2 :: "database \<Rightarrow> int \<Rightarrow> response \<times> database" where
  "get_book_v2 db ident =
     (case books_join db (filter (\<lambda>b. b_bookid b = ident) (books db)) of
        [] \<Rightarrow> (errorResponse 404 ''Book not found'', db)
      | row # _ \<Rightarrow> (Response 200 (book_json row), db))"

definition post_books_v2 :: "database \<Rightarrow> book_body \<Rightarrow> response \<times> database" where
  "post_books_v2 db bd =
     (if \<not> truthy_str (title bd) \<or> \<not> truthy_num (authorid bd) \<or> \<not> truthy_num (genreid bd)
         \<or> \<not> truthy_num (pages bd) \<or> \<not> truthy_str (publishedDate bd)
      then (errorResponse 400 ''All fields are required'', db)
      else
        case sql_insert_book index_schema db (title bd) (authorid bd) (genreid bd) (pages bd)
               (publishedDate bd) of
          Inl err \<Rightarrow> (uncaught err, db)
        | Inr (lastInsertRowid, db') \<Rightarrow>
            (Response 201 (JObj [(''bookid'', JNum lastInsertRowid)]), db'))"

definition put_books_v2 :: "database \<Rightarrow> int \<Rightarrow> book_body \<Rightarrow> response \<times> database" where
  "put_books_v2 db ident bd =
     (if \<not> truthy_str (title bd) \<or> \<not> truthy_num (authorid bd) \<or> \<not> truthy_num (genreid bd)
         \<or> \<not> truthy_num (pages bd) \<or> \<not> truthy_str (publishedDate bd)
      then (errorResponse 400 ''All fields are required'', db)
      else
        case sql_update_book index_schema db (title bd) (authorid bd) (genreid bd) (pages bd)
               (publishedDate bd) ident of
          Inl err \<Rightarrow> (uncaught err, db)
        | Inr (changes, db') \<Rightarrow>
            if changes = 0 then (errorResponse 404 ''Book not found'', db')
            else (Response 200 (JObj [(''message'', JStr ''Book updated successfully'')]), db'))"

definition delete_books_v2 :: "database \<Rightarrow> int \<Rightarrow> response \<times> database" where
  "delete_books_v2 db ident =
     (case sql_delete_book db ident of (changes, db') \<Rightarrow>
        if changes = 0 then (errorResponse 404 ''Book not found'', db')
        else (Response 200 (JObj [(''message'', JStr ''Book deleted successfully'')]), db'))"

subsection \<open>The version without validation (\<^verbatim>\<open>part_000\<close>, lines 194-337)\<close>

text \<open>An insert without callback: its error is dropped.\<close>

definition run_insert_book_v3 ::
  "string \<Rightarrow> int \<Rightarrow> int \<Rightarrow> int \<Rightarrow> string \<Rightarrow> database \<Rightarrow> database" where
  "run_insert_book_v3 t a g p d db =
     (case sql_insert_book v3_schema db (Some t) (Some a) (Some g) (Some p) (Some d) of
        Inl err \<Rightarrow> db
      | Inr (k, db') \<Rightarrow> db')"

text \<open>
  The eleven inserts of the sample rows, in the order of the source. The books carry
  their author and genre keys as constants.
\<close>

definition seed_statements_v3 :: "(database \<Rightarrow> database) list" where
  "seed_statements_v3 =
     [sql_insert_author ''J.K. Rowling'',
      sql_insert_author ''George Orwell'',
      sql_insert_author ''J.R.R. Tolkien'',
      sql_insert_author ''Harper Lee'',
      sql_insert_genre ''Fantasy''
        ''A genre of speculative fiction involving magic and mythical creatures'',
      sql_insert_genre ''Dystopian''
        ''A genre of speculative fiction set in a futuristic society with oppression and control'',
      sql_insert_genre ''Fiction'' ''A genre of narrative fiction based on real-life experiences'',
      run_insert_book_v3 ''Harry Potter and the Sorcerer's Stone'' 1 1 309 ''1997-06-26'',
      run_insert_book_v3 ''1984'' 2 2 328 ''1949-06-08'',
      run_insert_book_v3 ''The Hobbit'' 3 1 310 ''1937-09-21'',
      run_insert_book_v3 ''To Kill a Mockingbird'' 4 3 324 ''1960-07-11'']"

text \<open>
  The sample rows go in only when \<^verbatim>\<open>SELECT COUNT(*) FROM authors\<close> is 0. All eleven
  inserts are issued from the callback of that query, outside \<^verbatim>\<open>serialize\<close>: \<open>order\<close>
  lists them in the order in which they reach the tables (\<open>is_order 11 order\<close>;
  \<open>source_order_v3\<close> is the order of the source).
\<close>

definition initialize_v3 :: "nat list \<Rightarrow> database \<Rightarrow> database" where
  "initialize_v3 order db =
     (if length (authors db) = 0 then fold (\<lambda>i. seed_statements_v3 ! i) order db else db)"

definition source_order_v3 :: "nat list" where
  "source_order_v3 = [0, 1, 2, 3, 4, 5, 6, 7, 8, 9, 10]"


definition get_book_v3 :: "database \<Rightarrow> int \<Rightarrow> response \<times> database" where
  "get_book_v3 db ident =
     (case books_join db (filter (\<lambda>b. b_bookid b = ident) (books db)) of
        [] \<Rightarrow> (Response 404 (JObj [(''error'', JStr ''Book not found'')]), db)
      | row # _ \<Rightarrow> (Response 200 (book_json row), db))"

definition post_books_v3 :: "database \<Rightarrow> book_body \<Rightarrow> response \<times> database" where
  "post_books_v3 db bd =
     (case sql_insert_book v3_schema db (title bd) (authorid bd) (genreid bd) (pages bd)
             (publishedDate bd) of
        Inl err \<Rightarrow> (Response 500 (JObj [(''error'', JStr (message err))]), db)
      | Inr (lastID, db') \<Rightarrow> (Response 201 (JObj [(''bookid'', JNum lastID)]), db'))"

definition put_books_v3 :: "database \<Rightarrow> int \<Rightarrow> book_body \<Rightarrow> response \<times> database" where
  "put_books_v3 db ident bd =
     (case sql_update_book v3_schema db (title bd) (authorid bd) (genreid bd) (pages bd)
             (publishedDate bd) ident of
        Inl err \<Rightarrow> (Response 500 (JObj [(''error'', JStr (message err))]), db)
      | Inr (changes, db') \<Rightarrow>
          if changes = 0 then (Response 404 (JObj [(''error'', JStr ''Book not found'')]), db')
          else (Response 200 (JObj [(''message'', JStr ''Book updated successfully'')]), db'))"

definition delete_books_v3 :: "database \<Rightarrow> int \<Rightarrow> response \<times> database" where
  "delete_books_v3 db ident =
     (case sql_delete_book db ident of (changes, db') \<Rightarrow>
        if changes = 0 then (Response 404 (JObj [(''error'', JStr ''Book not found'')]), db')
        else (Response 200 (JObj [(''message'', JStr ''Book deleted successfully'')]), db'))"

subsection \<open>Primary keys\<close>

text \<open>Every table has a primary key: no two rows of a table share it.\<close>

definition pk_ok :: "database \<Rightarrow> bool" where
  "pk_ok db =
     (distinct (map a_authorid (authors db)) \<and> distinct (map g_genreid (genres db)) \<and>
      distinct (map b_bookid (books db)))"

text \<open>The key that the next insert into the books table draws.\<close>

definition next_bookid :: "database \<Rightarrow> int" where
  "next_bookid db = new_rowid (seq_books db) (map b_bookid (books db))"

text \<open>The \<^verbatim>\<open>bookid\<close> member of each row of a list response; an error response lists none.\<close>

definition bookids :: "response \<Rightarrow> json option list" where
  "bookids r = (case body r of JArr rows \<Rightarrow> map (\<lambda>row. map_of (members row) ''bookid'') rows
                | _ \<Rightarrow> [])"

text \<open>
  A book whose author or genre does not resolve: the key is \<^verbatim>\<open>NULL\<close> or names no row
  of the parent table.
\<close>

definition unresolved :: "database \<Rightarrow> book_row \<Rightarrow> bool" where
  "unresolved db b =
     (b_authorid b = None \<or> (\<forall>a \<in> set (authors db). b_authorid b \<noteq> Some (a_authorid a)) \<or>
      b_genreid b = None \<or> (\<forall>g \<in> set (genres db). b_genreid b \<noteq> Some (g_genreid g)))"

text \<open>The numbers that \<^verbatim>\<open>page\<close> and \<^verbatim>\<open>limit\<close> denote, with their defaults.\<close>

definition page_number :: "book_query \<Rightarrow> int" where
  "page_number q = (case page q of None \<Rightarrow> 1 | Some v \<Rightarrow> sint v)"

definition limit_number :: "book_query \<Rightarrow> int" where
  "limit_number q = (case limit q of None \<Rightarrow> 10 | Some v \<Rightarrow> sint v)"

subsection \<open>Sample states and requests\<close>

text \<open>
  The rows that seeding writes when the inserts run in source order, with the four
  books numbered from \<open>k + 1\<close>, and the state that holds them; the evaluation lemmas
  below show which states the seeding code produces.
\<close>

definition seeded_authors :: "author_row list" where
  "seeded_authors =
     [\<lparr>a_authorid = 1, a_name = ''J.K. Rowling''\<rparr>, \<lparr>a_authorid = 2, a_name = ''George Orwell''\<rparr>,
      \<lparr>a_authorid = 3, a_name = ''J.R.R. Tolkien''\<rparr>, \<lparr>a_authorid = 4, a_name = ''Harper Lee''\<rparr>]"

definition seeded_genres :: "genre_row list" where
  "seeded_genres =
     [\<lparr>g_genreid = 1, g_name = ''Fantasy'',
       g_description = Some ''A genre of speculative fiction involving magic and mythical creatures''\<rparr>,
      \<lparr>g_genreid = 2, g_name = ''Dystopian'',
       g_description = Some ''A genre of speculative fiction set in a futuristic society with oppression and control''\<rparr>,
      \<lparr>g_genreid = 3, g_name = ''Fiction'',
       g_description = Some ''A genre of narrative fiction based on real-life experiences''\<rparr>]"

definition seeded_books :: "int \<Rightarrow> book_row list" where
  "seeded_books k =
     [\<lparr>b_bookid = k + 1, b_title = Some ''Harry Potter and the Sorcerer's Stone'',
       b_authorid = Some 1, b_genreid = Some 1, b_pages = Some 309,
       b_publishedDate = Some ''1997-06-26''\<rparr>,
      \<lparr>b_bookid = k + 2, b_title = Some ''1984'', b_authorid = Some 2, b_genreid = Some 2,
       b_pages = Some 328, b_publishedDate = Some ''1949-06-08''\<rparr>,
      \<lparr>b_bookid = k + 3, b_title = Some ''The Hobbit'', b_authorid = Some 3, b_genreid = Some 1,
       b_pages = Some 310, b_publishedDate = Some ''1937-09-21''\<rparr>,
      \<lparr>b_bookid = k + 4, b_title = Some ''To Kill a Mockingbird'', b_authorid = Some 4,
       b_genreid = Some 3, b_pages = Some 324, b_publishedDate = Some ''1960-07-11''\<rparr>]"

definition seeded :: "book_row list \<Rightarrow> int \<Rightarrow> int \<Rightarrow> int \<Rightarrow> database" where
  "seeded bs sa sg sb =
     \<lparr>authors = seeded_authors, genres = seeded_genres, books = bs,
      seq_authors = sa, seq_genres = sg, seq_books = sb\<rparr>"

definition seeded_db :: database where
  "seeded_db = seeded (seeded_books 0) 4 3 4"

text \<open>The row that the callback of a lookup stores under the key \<open>k\<close>.\<close>

definition seed_book_row :: "int \<Rightarrow> seed_book \<times> (int \<times> int) option \<Rightarrow> book_row" where
  "seed_book_row k x =
     \<lparr>b_bookid = k, b_title = Some (sb_title (fst x)), b_authorid = map_option fst (snd x),
      b_genreid = map_option snd (snd x), b_pages = Some (sb_pages (fst x)),
      b_publishedDate = Some (sb_publishedDate (fst x))\<rparr>"

text \<open>The rows stored for a list of lookups, under the keys after \<open>k\<close>.\<close>

fun number_books :: "int \<Rightarrow> (seed_book \<times> (int \<times> int) option) list \<Rightarrow> book_row list" where
  "number_books k [] = []"
| "number_books k (x # xs) = seed_book_row (k + 1) x # number_books (k + 1) xs"

text \<open>The object of the detail route for a seed book stored under the key \<open>k\<close>.\<close>

definition seed_book_json :: "int \<Rightarrow> seed_book \<Rightarrow> json" where
  "seed_book_json k sb =
     JObj [(''bookid'', JNum k), (''title'', JStr (sb_title sb)),
           (''author'', JStr (sb_author sb)), (''genre'', JStr (sb_genre sb)),
           (''pages'', JNum (sb_pages sb)), (''publishedDate'', JStr (sb_publishedDate sb))]"

text \<open>The results of the four lookups, and an order in which the insert of 1984 runs first.\<close>

definition seed_rows :: "(seed_book \<times> (int \<times> int) option) list" where
  "seed_rows = [(seed_books ! 0, Some (1, 1)), (seed_books ! 1, Some (2, 2)),
                (seed_books ! 2, Some (3, 1)), (seed_books ! 3, Some (4, 3))]"

definition order_1984_first :: "nat list" where
  "order_1984_first = [1, 0, 2, 3]"

text \<open>Request bodies and queries used as concrete inputs.\<close>

definition animal_farm :: "int \<Rightarrow> book_body" where
  "animal_farm n = \<lparr>title = Some ''Animal Farm'', authorid = Some 2, genreid = Some 2,
                     pages = Some n, publishedDate = Some ''1945-08-17''\<rparr>"

definition no_fields :: book_body where
  "no_fields = \<lparr>title = None, authorid = None, genreid = None, pages = None,
                publishedDate = None\<rparr>"

definition orphan :: book_body where
  "orphan = \<lparr>title = Some ''Orphan'', authorid = Some 9, genreid = Some 1, pages = Some 10,
             publishedDate = Some ''2000-01-01''\<rparr>"

definition orphan_row :: book_row where
  "orphan_row = \<lparr>b_bookid = 5, b_title = Some ''Orphan'', b_authorid = Some 9,
                  b_genreid = Some 1, b_pages = Some 10, b_publishedDate = Some ''2000-01-01''\<rparr>"


definition no_paging :: book_query where
  "no_paging = \<lparr>page = None, limit = None\<rparr>"



section \<open>Lemmas\<close>

subsection \<open>Generated keys are fresh\<close>

lemmas rowid_defs = new_rowid_def max_rowid_def

lemma fold_max_mono: "(a::int) \<le> fold max xs a"
proof (induction xs arbitrary: a)
  case Nil
  then show ?case by simp
next
  case (Cons x xs)
  from Cons.IH[of "max x a"] show ?case by simp
qed

lemma fold_max_mem: "x \<in> set xs \<Longrightarrow> x \<le> fold max xs (a::int)"
proof (induction xs arbitrary: a)
  case Nil
  then show ?case by simp
next
  case (Cons y ys)
  show ?case
  proof (cases "x = y")
    case True
    have "max y a \<le> fold max ys (max y a)" by (rule fold_max_mono)
    with True show ?thesis by simp
  next
    case False
    with Cons.prems have "x \<in> set ys" by simp
    then show ?thesis using Cons.IH by simp
  qed
qed

lemma fold_max_le: "\<forall>x \<in> set xs. x \<le> s \<Longrightarrow> a \<le> s \<Longrightarrow> fold max xs a \<le> (s::int)"
  by (induction xs arbitrary: a) auto

lemma new_rowid_above: "x \<in> set ids \<Longrightarrow> x < new_rowid s ids"
  using fold_max_mem[of x ids 0] by (simp add: new_rowid_def max_rowid_def)

lemma new_rowid_fresh: "new_rowid s ids \<notin> set ids"
  using new_rowid_above[of "new_rowid s ids" ids s] by auto

lemma new_rowid_next:
  assumes "\<forall>x \<in> set ids. x \<le> s" "0 \<le> s"
  shows "new_rowid s ids = s + 1"
  using fold_max_le[OF assms] by (simp add: rowid_defs)

lemma filter_fresh_bookid:
  "k \<notin> set (map b_bookid bs) \<Longrightarrow> filter (\<lambda>b. b_bookid b = k) bs = []"
  by (induction bs) auto

lemma filter_other_bookid:
  "k \<notin> set (map b_bookid bs) \<Longrightarrow> filter (\<lambda>b. b_bookid b \<noteq> k) bs = bs"
  by (induction bs) auto

lemma filter_key_unique:
  "distinct (map f xs) \<Longrightarrow> x \<in> set xs \<Longrightarrow> filter (\<lambda>y. f y = f x) xs = [x]"
proof (induction xs)
  case Nil
  then show ?case by simp
next
  case (Cons y ys)
  show ?case
  proof (cases "x = y")
    case True
    from Cons.prems have "f y \<notin> f ` set ys" by simp
    then have "filter (\<lambda>z. f z = f y) ys = []" by (induction ys) auto
    with True show ?thesis by simp
  next
    case False
    with Cons.prems have xin: "x \<in> set ys" and d: "distinct (map f ys)" by auto
    from Cons.prems xin have "f y \<noteq> f x" by (auto simp: image_iff)
    with Cons.IH[OF d xin] show ?thesis by simp
  qed
qed

lemma pk_at_most_one:
  assumes "pk_ok db"
  shows "length (filter (\<lambda>b. b_bookid b = ident) (books db)) \<le> 1"
proof (cases "ident \<in> set (map b_bookid (books db))")
  case True
  then obtain b where b: "b \<in> set (books db)" "ident = b_bookid b" by auto
  from assms have "distinct (map b_bookid (books db))" by (simp add: pk_ok_def)
  from filter_key_unique[OF this b(1)] b(2) show ?thesis by simp
next
  case False
  then show ?thesis by (simp add: filter_fresh_bookid)
qed

subsection \<open>The join\<close>

lemma books_join_Nil: "books_join db [] = []"
  by (simp add: books_join_def)

lemma books_join_append: "books_join db (xs @ ys) = books_join db xs @ books_join db ys"
  by (simp add: books_join_def)

lemma books_join_single:
  "books_join db [b] =
     concat (map (\<lambda>a. if b_authorid b = Some (a_authorid a)
                        then concat (map (\<lambda>g. if b_genreid b = Some (g_genreid g) then [(b, a, g)] else [])
                                      (genres db))
                        else []) (authors db))"
  by (simp add: books_join_def)

lemma books_join_mem:
  "(b, a, g) \<in> set (books_join db bs) \<longleftrightarrow>
     b \<in> set bs \<and> a \<in> set (authors db) \<and> b_authorid b = Some (a_authorid a) \<and>
     g \<in> set (genres db) \<and> b_genreid b = Some (g_genreid g)"
  by (auto simp: books_join_def)

lemma books_join_cong:
  assumes "authors db' = authors db" "genres db' = genres db"
  shows "books_join db' bs = books_join db bs"
  unfolding books_join_def assms by (rule refl)

lemma concat_map_key:
  "distinct (map f xs) \<Longrightarrow> x \<in> set xs \<Longrightarrow>
     concat (map (\<lambda>y. if Some (f x) = Some (f y) then h y else []) xs) = h x"
proof (induction xs)
  case Nil
  then show ?case by simp
next
  case (Cons y ys)
  show ?case
  proof (cases "x = y")
    case True
    from Cons.prems have "f y \<notin> f ` set ys" by simp
    then have "concat (map (\<lambda>z. if Some (f y) = Some (f z) then h z else []) ys) = []"
      by (induction ys) auto
    with True show ?thesis by simp
  next
    case False
    with Cons.prems have xin: "x \<in> set ys" and d: "distinct (map f ys)" by auto
    from Cons.prems xin have "f x \<noteq> f y" by (auto simp: image_iff)
    with Cons.IH[OF d xin] show ?thesis by simp
  qed
qed

lemma books_join_resolved:
  assumes "distinct (map a_authorid (authors db))" "distinct (map g_genreid (genres db))"
    and "a \<in> set (authors db)" "g \<in> set (genres db)"
    and "b_authorid b = Some (a_authorid a)" "b_genreid b = Some (g_genreid g)"
  shows "books_join db [b] = [(b, a, g)]"
proof -
  have g: "concat (map (\<lambda>g'. if Some (g_genreid g) = Some (g_genreid g') then [(b, a', g')] else [])
             (genres db)) = [(b, a', g)]" for a'
    using concat_map_key[OF assms(2) assms(4), of "\<lambda>g'. [(b, a', g')]"] by simp
  show ?thesis
    unfolding books_join_single assms(5) assms(6) g
    using concat_map_key[OF assms(1) assms(3), of "\<lambda>a'. [(b, a', g)]"] by simp
qed

lemma books_join_unresolved:
  assumes "unresolved db b"
  shows "books_join db [b] = []"
proof -
  have "x \<notin> set (books_join db [b])" for x
  proof (cases x)
    case (fields b' a g)
    then show ?thesis using assms books_join_mem[of b' a g db "[b]"]
      by (auto simp: unresolved_def)
  qed
  then show ?thesis by (meson last_in_set)
qed

lemma set_sql_limit_offset: "set (sql_limit_offset l off xs) \<subseteq> set xs"
  by (auto simp: sql_limit_offset_def Let_def dest: in_set_takeD in_set_dropD)

lemma set_sql_distinct: "set (sql_distinct xs) = set xs"
  by (simp add: sql_distinct_def)

lemma bookid_of_list_row:
  "map_of (members (book_list_json (b, a, g))) ''bookid'' = Some (JNum (b_bookid b))"
  by (simp add: book_list_json_def)

subsection \<open>Numbers of the list route\<close>

text \<open>
  For 32-bit parameters the subtraction is exact, the product is below \<^verbatim>\<open>2^63\<close> after
  rounding, and so the bound values are 64-bit integers below \<^verbatim>\<open>1e21\<close>: the list
  query does not fail and \<^verbatim>\<open>parseInt\<close> returns the offset as it is.
\<close>

lemma js_round_exact: "\<bar>n\<bar> \<le> 2 ^ 53 \<Longrightarrow> js_round n = n"
  by (simp add: js_round_def)

lemma js_round_bound:
  assumes "\<bar>n\<bar> \<le> 2 ^ 62 + 2 ^ 31"
  shows "\<bar>js_round n\<bar> \<le> 2 ^ 62 + 2 ^ 31 + 2 ^ 10"
proof (cases "\<bar>n\<bar> \<le> 2 ^ 53")
  case True
  with assms show ?thesis by (simp add: js_round_def)
next
  case False
  define a where "a = \<bar>n\<bar>"
  define e where "e = nat (bitlen a - 53)"
  define u :: int where "u = 2 ^ e"
  define q where "q = a div u"
  define r where "r = a mod u"
  define q' where "q' = (if u < 2 * r \<or> (u = 2 * r \<and> odd q) then q + 1 else q)"
  from assms have "a < 2 ^ nat 63" by (simp add: a_def)
  then have "bitlen a \<le> 63" by (simp add: bitlen_le_iff_power)
  then have "e \<le> 10" by (simp add: e_def)
  then have "u \<le> 2 ^ 10" unfolding u_def by (intro power_increasing) simp_all
  have "0 < u" by (simp add: u_def)
  have "0 \<le> a" by (simp add: a_def)
  with \<open>0 < u\<close> have "0 \<le> q" by (simp add: q_def pos_imp_zdiv_nonneg_iff)
  then have "0 \<le> q'" by (simp add: q'_def)
  have "q * u \<le> a" using \<open>0 < u\<close> by (simp add: q_def) (metis div_mult_mod_eq le_add_same_cancel1 mult.commute pos_mod_sign)
  have "q' \<le> q + 1" by (simp add: q'_def)
  then have "q' * u \<le> (q + 1) * u" using \<open>0 < u\<close> by (intro mult_right_mono) simp_all
  also have "\<dots> = q * u + u" by (simp add: algebra_simps)
  also have "\<dots> \<le> a + 2 ^ 10" using \<open>q * u \<le> a\<close> \<open>u \<le> 2 ^ 10\<close> by simp
  finally have le: "q' * u \<le> a + 2 ^ 10" .
  have "0 \<le> q' * u" using \<open>0 \<le> q'\<close> \<open>0 < u\<close> by simp
  have "js_round n = sgn n * (q' * u)"
    using False by (simp add: js_round_def Let_def q'_def q_def r_def u_def e_def a_def)
  then have "\<bar>js_round n\<bar> = \<bar>sgn n\<bar> * (q' * u)"
    using \<open>0 \<le> q'\<close> \<open>0 < u\<close> by (simp add: abs_mult)
  also have "\<dots> \<le> 1 * (q' * u)"
    using \<open>0 \<le> q' * u\<close> by (intro mult_right_mono) (simp_all add: abs_sgn_eq)
  finally show ?thesis using le assms by (simp add: a_def)
qed

lemma page_number_bounds:
  fixes v w :: "32 word"
  shows "\<bar>sint v - 1\<bar> \<le> 2 ^ 31 + 1" "\<bar>sint w\<bar> \<le> 2 ^ 31"
  using sint_ge[of v] sint_lt[of v] sint_ge[of w] sint_lt[of w] by simp_all

lemma product_bound:
  fixes a b :: int
  assumes "\<bar>a\<bar> \<le> 2 ^ 31 + 1" "\<bar>b\<bar> \<le> 2 ^ 31"
  shows "\<bar>a * b\<bar> \<le> 2 ^ 62 + 2 ^ 31"
proof -
  have "\<bar>a * b\<bar> = \<bar>a\<bar> * \<bar>b\<bar>" by (simp add: abs_mult)
  also have "\<dots> \<le> (2 ^ 31 + 1) * 2 ^ 31" using assms by (intro mult_mono) simp_all
  also have "\<dots> = 2 ^ 62 + 2 ^ 31" by simp
  finally show ?thesis .
qed

lemma query_bounds:
  "\<bar>page_number q - 1\<bar> \<le> 2 ^ 31 + 1" "\<bar>limit_number q\<bar> \<le> 2 ^ 31"
  using page_number_bounds
  by (auto simp: page_number_def limit_number_def split: option.splits)

lemma page_params_eq:
  "page_params q = (limit_number q, js_round ((page_number q - 1) * limit_number q))"
proof -
  have "\<bar>page_number q - 1\<bar> \<le> 2 ^ 53" using query_bounds(1)[of q] by simp
  then have "js_sub (page_number q) 1 = page_number q - 1"
    by (simp add: js_sub_def js_round_exact)
  then show ?thesis
    by (simp add: page_params_def Let_def js_mul_def page_number_def limit_number_def)
qed

lemma offset_in_range:
  "sqlite_integer (fst (page_params q))" "sqlite_integer (snd (page_params q))"
  "\<bar>snd (page_params q)\<bar> < 10 ^ 21"
proof -
  have "\<bar>js_round ((page_number q - 1) * limit_number q)\<bar> \<le> 2 ^ 62 + 2 ^ 31 + 2 ^ 10"
    by (intro js_round_bound product_bound query_bounds)
  then show "sqlite_integer (snd (page_params q))" "\<bar>snd (page_params q)\<bar> < 10 ^ 21"
    by (simp_all add: page_params_eq sqlite_integer_def abs_le_iff abs_less_iff)
  show "sqlite_integer (fst (page_params q))"
    using query_bounds(2)[of q] by (simp add: page_params_eq sqlite_integer_def abs_le_iff)
qed

lemma get_books_ok:
  "get_books db q =
     (Response 200
        (JArr (sql_limit_offset (fst (page_params q)) (snd (page_params q))
                 (sql_distinct (map book_list_json (books_join db (books db)))))), db)"
  using offset_in_range(1,2)[of q]
  by (cases "page_params q") (simp add: get_books_def sql_select_books_page_def)




subsection \<open>The presence check and the statements\<close>

lemma check_rejects:
  assumes "title bd = None \<or> title bd = Some [] \<or> authorid bd = None \<or> authorid bd = Some 0 \<or>
           genreid bd = None \<or> genreid bd = Some 0 \<or> pages bd = None \<or> pages bd = Some 0 \<or>
           publishedDate bd = None \<or> publishedDate bd = Some []"
  shows "\<not> truthy_str (title bd) \<or> \<not> truthy_num (authorid bd) \<or> \<not> truthy_num (genreid bd)
         \<or> \<not> truthy_num (pages bd) \<or> \<not> truthy_str (publishedDate bd)"
  using assms by auto

lemma sql_insert_book_ok:
  assumes "t \<noteq> None \<or> \<not> title_not_null sc" "fk_ok db a g \<or> \<not> foreign_keys sc"
  shows "sql_insert_book sc db t a g p d =
     Inr (new_rowid (seq_books db) (map b_bookid (books db)),
          db\<lparr>books := books db @
                 [\<lparr>b_bookid = new_rowid (seq_books db) (map b_bookid (books db)), b_title = t,
                   b_authorid = a, b_genreid = g, b_pages = p, b_publishedDate = d\<rparr>],
             seq_books := new_rowid (seq_books db) (map b_bookid (books db))\<rparr>)"
  using assms by (auto simp: sql_insert_book_def Let_def)

lemma sql_insert_book_frame:
  "sql_insert_book sc db t a g p d = Inr (k, db') \<Longrightarrow>
     authors db' = authors db \<and> genres db' = genres db"
  by (auto simp: sql_insert_book_def Let_def split: if_splits)

lemma update_keeps_others:
  assumes "\<And>b. b_bookid (upd b) = b_bookid b"
  shows "filter (\<lambda>b. b_bookid b \<noteq> ident)
     (map (\<lambda>b. if b_bookid b = ident then upd b else b) bs) =
   filter (\<lambda>b. b_bookid b \<noteq> ident) bs"
  using assms by (induction bs) auto

lemma update_keeps_bookids:
  assumes "\<And>b. b_bookid (upd b) = b_bookid b"
  shows "map b_bookid (map (\<lambda>b. if b_bookid b = ident then upd b else b) bs) = map b_bookid bs"
  using assms by (induction bs) auto

lemma sql_update_book_frame:
  assumes "sql_update_book sc db t a g p d ident = Inr (n, db')"
  shows "authors db' = authors db \<and> genres db' = genres db \<and>
     map b_bookid (books db') = map b_bookid (books db) \<and>
     filter (\<lambda>b. b_bookid b \<noteq> ident) (books db') = filter (\<lambda>b. b_bookid b \<noteq> ident) (books db)"
proof -
  let ?upd = "\<lambda>b. b\<lparr>b_title := t, b_authorid := a, b_genreid := g, b_pages := p,
                       b_publishedDate := d\<rparr>"
  have ids: "map b_bookid (map (\<lambda>b. if b_bookid b = ident then ?upd b else b) (books db)) =
     map b_bookid (books db)"
    by (rule update_keeps_bookids) simp
  from assms have "db' = db \<or>
     db' = db\<lparr>books := map (\<lambda>b. if b_bookid b = ident then ?upd b else b) (books db)\<rparr>"
    by (auto simp: sql_update_book_def Let_def split: if_splits)
  then show ?thesis
  proof
    assume "db' = db"
    then show ?thesis by simp
  next
    assume "db' = db\<lparr>books := map (\<lambda>b. if b_bookid b = ident then ?upd b else b) (books db)\<rparr>"
    then show ?thesis
      using update_keeps_others[of ?upd ident "books db"] ids by simp
  qed
qed

lemma post_books_frame:
  "authors (snd (post_books db bd)) = authors db \<and> genres (snd (post_books db bd)) = genres db"
  by (auto simp: post_books_def split: sum.splits dest: sql_insert_book_frame)

lemma put_books_frame:
  "authors (snd (put_books db ident bd)) = authors db \<and>
   genres (snd (put_books db ident bd)) = genres db \<and>
   map b_bookid (books (snd (put_books db ident bd))) = map b_bookid (books db) \<and>
   filter (\<lambda>b. b_bookid b \<noteq> ident) (books (snd (put_books db ident bd))) =
     filter (\<lambda>b. b_bookid b \<noteq> ident) (books db)"
  by (auto simp: put_books_def split: sum.splits dest: sql_update_book_frame)

lemma delete_books_frame:
  "authors (snd (delete_books db ident)) = authors db \<and>
   genres (snd (delete_books db ident)) = genres db \<and>
   books (snd (delete_books db ident)) = filter (\<lambda>b. b_bookid b \<noteq> ident) (books db)"
  by (simp add: delete_books_def sql_delete_book_def)

lemma handle_frame:
  "authors (snd (handle db r)) = authors db \<and> genres (snd (handle db r)) = genres db"
proof (cases r)
  case (GetBooks q)
  then show ?thesis by (simp add: get_books_ok)
next
  case (GetBook i)
  then show ?thesis by (simp add: get_book_def split: list.splits)
next
  case (PostBooks bd)
  then show ?thesis by (simp add: post_books_frame)
next
  case (PutBooks i bd)
  then show ?thesis by (simp add: put_books_frame)
next
  case (DeleteBooks i)
  then show ?thesis by (simp add: delete_books_frame)
next
  case GetAuthors
  then show ?thesis by (simp add: get_authors_def)
next
  case GetGenres
  then show ?thesis by (simp add: get_genres_def)
qed

subsection \<open>Seeding keeps the reference tables\<close>

lemma seed_authors_keep:
  "set (authors db) \<subseteq> set (authors (fold sql_insert_or_ignore_author ns db)) \<and>
   genres (fold sql_insert_or_ignore_author ns db) = genres db"
proof (induction ns arbitrary: db)
  case Nil
  then show ?case by simp
next
  case (Cons n ns)
  have "set (authors db) \<subseteq> set (authors (sql_insert_or_ignore_author n db))"
    and "genres (sql_insert_or_ignore_author n db) = genres db"
    by (auto simp: sql_insert_or_ignore_author_def Let_def)
  with Cons.IH[of "sql_insert_or_ignore_author n db"] show ?case by auto
qed

lemma seed_genres_keep:
  "set (genres db) \<subseteq> set (genres (fold (\<lambda>(n, d). sql_insert_or_ignore_genre n d) ns db)) \<and>
   authors (fold (\<lambda>(n, d). sql_insert_or_ignore_genre n d) ns db) = authors db"
proof (induction ns arbitrary: db)
  case Nil
  then show ?case by simp
next
  case (Cons x ns)
  obtain n d where x: "x = (n, d)" by (cases x)
  have "set (genres db) \<subseteq> set (genres (sql_insert_or_ignore_genre n d db))"
    and "authors (sql_insert_or_ignore_genre n d db) = authors db"
    by (auto simp: sql_insert_or_ignore_genre_def Let_def)
  with Cons.IH[of "sql_insert_or_ignore_genre n d db"] x show ?case by auto
qed

lemma seed_book_callback_keep:
  "authors (seed_book_callback x db) = authors db \<and> genres (seed_book_callback x db) = genres db"
  by (auto simp: seed_book_callback_def sql_insert_or_ignore_book_def Let_def
      split: prod.splits option.splits sum.splits if_splits)

lemma seed_book_callbacks_keep:
  "authors (fold seed_book_callback xs db) = authors db \<and>
   genres (fold seed_book_callback xs db) = genres db"
  by (induction xs arbitrary: db) (simp_all add: seed_book_callback_keep)

lemma initialize_keep:
  "set (authors db) \<subseteq> set (authors (initialize order db)) \<and>
   set (genres db) \<subseteq> set (genres (initialize order db))"
  using seed_authors_keep[of db seed_authors]
    seed_genres_keep[of "fold sql_insert_or_ignore_author seed_authors db" seed_genres]
  by (simp add: initialize_def Let_def seed_book_callbacks_keep)

subsection \<open>Primary keys stay distinct\<close>

text \<open>
  The states that the service reaches from the empty database satisfy \<open>pk_ok\<close>: it
  holds initially and every statement keeps it.
\<close>

lemma pk_ok_empty: "pk_ok empty_db"
  by (simp add: pk_ok_def empty_db_def)

lemma pk_ok_insert_author: "pk_ok db \<Longrightarrow> pk_ok (sql_insert_or_ignore_author n db)"
  using new_rowid_fresh[of "seq_authors db" "map a_authorid (authors db)"]
  by (auto simp: pk_ok_def sql_insert_or_ignore_author_def Let_def)

lemma pk_ok_insert_genre: "pk_ok db \<Longrightarrow> pk_ok (sql_insert_or_ignore_genre n d db)"
  using new_rowid_fresh[of "seq_genres db" "map g_genreid (genres db)"]
  by (auto simp: pk_ok_def sql_insert_or_ignore_genre_def Let_def)

lemma pk_ok_insert_or_ignore_book:
  "pk_ok db \<Longrightarrow> sql_insert_or_ignore_book sc db t a g p d = Inr db' \<Longrightarrow> pk_ok db'"
  using new_rowid_fresh[of "seq_books db" "map b_bookid (books db)"]
  by (auto simp: pk_ok_def sql_insert_or_ignore_book_def Let_def split: if_splits)

lemma pk_ok_insert_book:
  "pk_ok db \<Longrightarrow> sql_insert_book sc db t a g p d = Inr (k, db') \<Longrightarrow> pk_ok db'"
  using new_rowid_fresh[of "seq_books db" "map b_bookid (books db)"]
  by (auto simp: pk_ok_def sql_insert_book_def Let_def split: if_splits)

lemma pk_ok_seed_authors: "pk_ok db \<Longrightarrow> pk_ok (fold sql_insert_or_ignore_author ns db)"
  by (induction ns arbitrary: db) (simp_all add: pk_ok_insert_author)

lemma pk_ok_seed_genres:
  "pk_ok db \<Longrightarrow> pk_ok (fold (\<lambda>(n, d). sql_insert_or_ignore_genre n d) ns db)"
  by (induction ns arbitrary: db) (auto simp: pk_ok_insert_genre)

lemma pk_ok_seed_book_callback: "pk_ok db \<Longrightarrow> pk_ok (seed_book_callback x db)"
  by (auto simp: seed_book_callback_def split: prod.splits option.splits sum.splits
      dest: pk_ok_insert_or_ignore_book)

lemma pk_ok_seed_books: "pk_ok db \<Longrightarrow> pk_ok (fold seed_book_callback xs db)"
  by (induction xs arbitrary: db) (simp_all add: pk_ok_seed_book_callback)

lemma pk_ok_initialize: "pk_ok db \<Longrightarrow> pk_ok (initialize order db)"
  by (simp add: initialize_def Let_def pk_ok_seed_books pk_ok_seed_genres pk_ok_seed_authors)

lemma pk_ok_handle:
  assumes "pk_ok db"
  shows "pk_ok (snd (handle db r))"
proof (cases r)
  case (GetBooks q)
  with assms show ?thesis by (simp add: get_books_ok)
next
  case (GetBook i)
  with assms show ?thesis by (simp add: get_book_def split: list.splits)
next
  case (PostBooks bd)
  with assms show ?thesis
    by (auto simp: post_books_def split: sum.splits dest: pk_ok_insert_book)
next
  case (PutBooks i bd)
  have "pk_ok (snd (put_books db i bd))"
    using assms put_books_frame[of db i bd] by (simp add: pk_ok_def)
  with PutBooks show ?thesis by simp
next
  case (DeleteBooks i)
  have "pk_ok (snd (delete_books db i))"
    using assms delete_books_frame[of db i] by (simp add: pk_ok_def distinct_map_filter)
  with DeleteBooks show ?thesis by simp
next
  case GetAuthors
  with assms show ?thesis by (simp add: get_authors_def)
next
  case GetGenres
  with assms show ?thesis by (simp add: get_genres_def)
qed

subsection \<open>Running the seeding code\<close>

text \<open>
  The stages of \<open>initialize\<close> are evaluated one by one. The inserts of the callbacks
  are followed through every order: each stores its book under the next key.
\<close>

lemmas seeded_eval = seeded_db_def seeded_def seeded_books_def seeded_authors_def seeded_genres_def

lemmas v2_eval = seeded_def seeded_books_def select_authorid_def
      select_genreid_def sql_insert_or_ignore_book_def index_schema_def fk_ok_def rowid_defs
      seeded_authors_def seeded_genres_def

lemma upt_4: "[0..<4] = [0, 1, 2, 3]"
  by code_simp

lemma less_4_cases: "j < 4 \<Longrightarrow> j = 0 \<or> j = 1 \<or> j = 2 \<or> j = (3::nat)"
  by arith

lemma length_number_books: "length (number_books k xs) = length xs"
  by (induction xs arbitrary: k) auto

lemma nth_number_books:
  "i < length xs \<Longrightarrow> number_books k xs ! i = seed_book_row (k + 1 + int i) (xs ! i)"
proof (induction xs arbitrary: k i)
  case Nil
  then show ?case by simp
next
  case (Cons x xs)
  then show ?case by (cases i) (auto simp: algebra_simps)
qed

lemma bookids_number_books:
  "map b_bookid (number_books k xs) = map (\<lambda>j. k + 1 + int j) [0..<length xs]"
  by (rule nth_equalityI) (simp_all add: length_number_books nth_number_books seed_book_row_def)

lemma titles_number_books:
  "map b_title (number_books k xs) = map (\<lambda>x. Some (sb_title (fst x))) xs"
  by (induction xs arbitrary: k) (auto simp: seed_book_row_def)

lemma number_books_above:
  "b \<in> set (number_books k xs) \<Longrightarrow> k < b_bookid b \<and> b_bookid b \<le> k + int (length xs)"
proof (induction xs arbitrary: k)
  case Nil
  then show ?case by simp
next
  case (Cons x xs)
  then show ?case by (fastforce simp: seed_book_row_def)
qed

lemma seed_authors_empty:
  "fold sql_insert_or_ignore_author seed_authors empty_db =
     \<lparr>authors = seeded_authors, genres = [], books = [],
      seq_authors = 4, seq_genres = 0, seq_books = 0\<rparr>"
  by (simp add: seeded_authors_def seed_authors_def empty_db_def
      sql_insert_or_ignore_author_def rowid_defs)

lemma seed_genres_empty:
  "fold (\<lambda>(n, d). sql_insert_or_ignore_genre n d) seed_genres
     \<lparr>authors = seeded_authors, genres = [], books = [],
      seq_authors = 4, seq_genres = 0, seq_books = 0\<rparr> = seeded [] 4 3 0"
  by (simp add: seeded_def seeded_genres_def seed_genres_def sql_insert_or_ignore_genre_def
      rowid_defs)

lemma seed_lookups:
  "map (\<lambda>sb. (sb, select_author_genre (seeded bs sa sg sb') (sb_author sb) (sb_genre sb))) seed_books
     = seed_rows"
  by (simp add: seed_rows_def seeded_def seed_books_def select_author_genre_def
      seeded_authors_def seeded_genres_def)

lemma seed_authors_again:
  "fold sql_insert_or_ignore_author seed_authors (seeded bs 4 sg sb) = seeded bs 8 sg sb"
  by (simp add: seeded_def seeded_authors_def seed_authors_def sql_insert_or_ignore_author_def
      rowid_defs)

lemma seed_genres_again:
  "fold (\<lambda>(n, d). sql_insert_or_ignore_genre n d) seed_genres (seeded bs sa 3 sb) = seeded bs sa 6 sb"
  by (simp add: seeded_def seeded_genres_def seed_genres_def sql_insert_or_ignore_genre_def
      rowid_defs)

lemma seed_row_keys:
  assumes "x \<in> set seed_rows"
  shows "\<exists>aid gid. snd x = Some (aid, gid) \<and> aid \<in> a_authorid ` set seeded_authors \<and>
           gid \<in> g_genreid ` set seeded_genres"
  using assms by (auto simp: seed_rows_def seeded_authors_def seeded_genres_def)

lemma seed_book_callback_seeded:
  assumes "x \<in> set seed_rows" "\<forall>b \<in> set bs. b_bookid b \<le> n" "0 \<le> n"
  shows "seed_book_callback x (seeded bs sa sg n) =
           seeded (bs @ [seed_book_row (n + 1) x]) sa sg (n + 1)"
proof -
  obtain sb r where x: "x = (sb, r)" by (cases x)
  from seed_row_keys[OF assms(1)] x obtain aid gid where r: "r = Some (aid, gid)"
    and aid: "aid \<in> a_authorid ` set seeded_authors"
    and gid: "gid \<in> g_genreid ` set seeded_genres" by auto
  have k: "new_rowid n (map b_bookid bs) = n + 1"
    using assms(2,3) by (intro new_rowid_next) auto
  have fk: "fk_ok (seeded bs sa sg n) (Some aid) (Some gid)"
    using aid gid by (simp add: fk_ok_def seeded_def)
  have "sql_insert_or_ignore_book index_schema (seeded bs sa sg n) (Some (sb_title sb))
          (Some aid) (Some gid) (Some (sb_pages sb)) (Some (sb_publishedDate sb)) =
        Inr (seeded (bs @ [seed_book_row (n + 1) x]) sa sg (n + 1))"
    using fk[unfolded seeded_def] k
    by (simp add: sql_insert_or_ignore_book_def index_schema_def Let_def seeded_def
        seed_book_row_def x r)
  then show ?thesis
    unfolding x r seed_book_callback_def by simp
qed

lemma seed_callbacks_closed:
  assumes "set xs \<subseteq> set seed_rows" "\<forall>b \<in> set bs. b_bookid b \<le> n" "0 \<le> n"
  shows "fold seed_book_callback xs (seeded bs sa sg n) =
           seeded (bs @ number_books n xs) sa sg (n + int (length xs))"
  using assms
proof (induction xs arbitrary: bs n)
  case Nil
  then show ?case by simp
next
  case (Cons x xs)
  have step: "seed_book_callback x (seeded bs sa sg n) =
                seeded (bs @ [seed_book_row (n + 1) x]) sa sg (n + 1)"
    using Cons.prems by (intro seed_book_callback_seeded) auto
  have "fold seed_book_callback xs (seeded (bs @ [seed_book_row (n + 1) x]) sa sg (n + 1)) =
          seeded ((bs @ [seed_book_row (n + 1) x]) @ number_books (n + 1) xs) sa sg
            (n + 1 + int (length xs))"
    using Cons.prems by (intro Cons.IH) (auto simp: seed_book_row_def intro: order_trans)
  with step show ?case by (simp add: algebra_simps)
qed

lemma is_order_length: "is_order n order \<Longrightarrow> length order = n"
  using distinct_card[of order] by (simp add: is_order_def)

lemma is_order_rows:
  assumes "is_order 4 order"
  shows "set (map (\<lambda>i. seed_rows ! i) order) \<subseteq> set seed_rows"
proof -
  have "length seed_rows = 4" by (simp add: seed_rows_def)
  with assms show ?thesis by (auto simp: is_order_def)
qed

lemma initialize_seeded_order:
  assumes "is_order 4 order" "\<forall>b \<in> set bs. b_bookid b \<le> n" "0 \<le> n"
  shows "initialize order (seeded bs 4 3 n) =
           seeded (bs @ number_books n (map (\<lambda>i. seed_rows ! i) order)) 8 6 (n + 4)"
  using seed_callbacks_closed[OF is_order_rows[OF assms(1)] assms(2,3), of 8 6]
    is_order_length[OF assms(1)]
  by (simp only: initialize_def Let_def seed_authors_again seed_genres_again seed_lookups)
     simp

lemma initialize_empty_order:
  assumes "is_order 4 order"
  shows "initialize order empty_db =
           seeded (number_books 0 (map (\<lambda>i. seed_rows ! i) order)) 4 3 4"
  using seed_callbacks_closed[OF is_order_rows[OF assms], of "[]" 0 4 3]
    is_order_length[OF assms]
  by (simp only: initialize_def Let_def seed_authors_empty seed_genres_empty seed_lookups)
     simp

lemma is_order_source: "is_order 4 source_order"
  by (auto simp: is_order_def source_order_def)

lemma is_order_1984_first: "is_order 4 order_1984_first"
  by (auto simp: is_order_def order_1984_first_def)

lemma number_books_source:
  "number_books k (map (\<lambda>i. seed_rows ! i) source_order) = seeded_books k"
  by (simp add: source_order_def seed_rows_def seed_books_def seeded_books_def seed_book_row_def)

lemma initialize_empty: "initialize source_order empty_db = seeded_db"
  by (simp add: initialize_empty_order[OF is_order_source] number_books_source seeded_db_def)

lemma initialize_seeded:
  "initialize source_order seeded_db = seeded (seeded_books 0 @ seeded_books 4) 8 6 8"
  unfolding seeded_db_def
  by (subst initialize_seeded_order[OF is_order_source])
     (auto simp: number_books_source seeded_books_def)

lemma initialize_twice_order:
  assumes "is_order 4 o1" "is_order 4 o2"
  shows "initialize o2 (initialize o1 empty_db) =
           seeded (number_books 0 (map (\<lambda>i. seed_rows ! i) o1) @
                   number_books 4 (map (\<lambda>i. seed_rows ! i) o2)) 8 6 8"
proof -
  have "\<forall>b \<in> set (number_books 0 (map (\<lambda>i. seed_rows ! i) o1)). b_bookid b \<le> 4"
    using number_books_above[of _ 0 "map (\<lambda>i. seed_rows ! i) o1"] is_order_length[OF assms(1)]
    by auto
  then show ?thesis
    unfolding initialize_empty_order[OF assms(1)]
    by (subst initialize_seeded_order[OF assms(2)]) simp_all
qed

lemma fst_seed_row: "j < 4 \<Longrightarrow> fst (seed_rows ! j) = seed_books ! j"
proof -
  assume "j < 4"
  then consider "j = 0" | "j = 1" | "j = 2" | "j = 3" by arith
  then show ?thesis by cases (simp_all add: seed_rows_def)
qed

lemma titles_of_order:
  assumes "is_order 4 order"
  shows "map b_title (number_books k (map (\<lambda>i. seed_rows ! i) order)) =
           map (\<lambda>j. Some (sb_title (seed_books ! j))) order"
proof -
  have "j < 4" if "j \<in> set order" for j using that assms by (simp add: is_order_def)
  then show ?thesis by (simp add: titles_number_books fst_seed_row)
qed

lemma join_seed_row:
  assumes "j < 4"
  shows "map book_json (books_join (seeded bs sa sg sb) [seed_book_row k (seed_rows ! j)]) =
           [seed_book_json k (seed_books ! j)]"
proof -
  have rows: "seed_rows ! 0 = (seed_books ! 0, Some (1, 1))" "seed_rows ! 1 = (seed_books ! 1, Some (2, 2))"
    "seed_rows ! 2 = (seed_books ! 2, Some (3, 1))" "seed_rows ! 3 = (seed_books ! 3, Some (4, 3))"
    by (simp_all add: seed_rows_def)
  have join: "books_join (seeded bs sa sg sb) [seed_book_row k (sb', Some (a, g))] =
     [(seed_book_row k (sb', Some (a, g)), x, y)]"
    if "x \<in> set seeded_authors" "a_authorid x = a" "y \<in> set seeded_genres" "g_genreid y = g"
    for sb' a g x y
    using that
    by (intro books_join_resolved)
       (simp_all add: seeded_def seed_book_row_def seeded_authors_def seeded_genres_def)
  from assms consider "j = 0" | "j = 1" | "j = 2" | "j = 3" by arith
  then show ?thesis
  proof cases
    case 1
    have "books_join (seeded bs sa sg sb) [seed_book_row k (seed_books ! 0, Some (1, 1))] =
       [(seed_book_row k (seed_books ! 0, Some (1, 1)), seeded_authors ! 0, seeded_genres ! 0)]"
      by (rule join) (simp_all add: seeded_authors_def seeded_genres_def)
    then show ?thesis
      unfolding 1 rows
      by (simp add: book_json_def seed_book_json_def seed_book_row_def seed_books_def
          seeded_authors_def seeded_genres_def)
  next
    case 2
    have "books_join (seeded bs sa sg sb) [seed_book_row k (seed_books ! 1, Some (2, 2))] =
       [(seed_book_row k (seed_books ! 1, Some (2, 2)), seeded_authors ! 1, seeded_genres ! 1)]"
      by (rule join) (simp_all add: seeded_authors_def seeded_genres_def)
    then show ?thesis
      unfolding 2 rows
      by (simp add: book_json_def seed_book_json_def seed_book_row_def seed_books_def
          seeded_authors_def seeded_genres_def)
  next
    case 3
    have "books_join (seeded bs sa sg sb) [seed_book_row k (seed_books ! 2, Some (3, 1))] =
       [(seed_book_row k (seed_books ! 2, Some (3, 1)), seeded_authors ! 2, seeded_genres ! 0)]"
      by (rule join) (simp_all add: seeded_authors_def seeded_genres_def)
    then show ?thesis
      unfolding 3 rows
      by (simp add: book_json_def seed_book_json_def seed_book_row_def seed_books_def
          seeded_authors_def seeded_genres_def)
  next
    case 4
    have "books_join (seeded bs sa sg sb) [seed_book_row k (seed_books ! 3, Some (4, 3))] =
       [(seed_book_row k (seed_books ! 3, Some (4, 3)), seeded_authors ! 3, seeded_genres ! 2)]"
      by (rule join) (simp_all add: seeded_authors_def seeded_genres_def)
    then show ?thesis
      unfolding 4 rows
      by (simp add: book_json_def seed_book_json_def seed_book_row_def seed_books_def
          seeded_authors_def seeded_genres_def)
  qed
qed

lemma get_book_seeded_order:
  assumes "is_order 4 order" "i < 4"
  shows "get_book (initialize order empty_db) (int i + 1) =
           (Response 200 (seed_book_json (int i + 1) (seed_books ! (order ! i))),
            initialize order empty_db)"
proof -
  let ?xs = "map (\<lambda>i. seed_rows ! i) order"
  let ?bs = "number_books 0 ?xs"
  let ?row = "seed_book_row (int i + 1) (seed_rows ! (order ! i))"
  have len: "length order = 4" using assms(1) by (rule is_order_length)
  from assms len have j: "order ! i < 4" by (auto simp: is_order_def dest: nth_mem)
  have init: "initialize order empty_db = seeded ?bs 4 3 4"
    using assms(1) by (rule initialize_empty_order)
  have row: "?bs ! i = ?row"
    using assms(2) len by (simp add: nth_number_books add.commute)
  have "i < length ?bs" using assms(2) len by (simp add: length_number_books)
  from nth_mem[OF this] have mem: "?row \<in> set ?bs" by (simp only: row)
  have "map b_bookid ?bs = map (\<lambda>j. 1 + int j) [0..<4]"
    using len by (simp add: bookids_number_books)
  then have d: "distinct (map b_bookid ?bs)" by (simp add: upt_4)
  have key: "b_bookid ?row = int i + 1" by (simp add: seed_book_row_def)
  have sel: "filter (\<lambda>b. b_bookid b = int i + 1) ?bs = [?row]"
    using filter_key_unique[OF d mem] by (simp add: key)
  have "map book_json (books_join (seeded ?bs 4 3 4) [?row]) =
          [seed_book_json (int i + 1) (seed_books ! (order ! i))]"
    using j by (rule join_seed_row)
  then obtain r where "books_join (seeded ?bs 4 3 4) [?row] = [r]"
    and "book_json r = seed_book_json (int i + 1) (seed_books ! (order ! i))"
    by (auto simp: map_eq_Cons_conv)
  then show ?thesis
    unfolding init get_book_def by (simp add: seeded_def sel[unfolded seeded_def])
qed

lemma seed_book_json_1984:
  "j = 1 \<Longrightarrow> seed_book_json k (seed_books ! j) =
     JObj [(''bookid'', JNum k), (''title'', JStr ''1984''),
           (''author'', JStr ''George Orwell''), (''genre'', JStr ''Dystopian''),
           (''pages'', JNum 328), (''publishedDate'', JStr ''1949-06-08'')]"
  by (simp add: seed_book_json_def seed_books_def)

text \<open>The \<^verbatim>\<open>better-sqlite3\<close> version runs its statements in source order.\<close>

lemma seed_books_v2_1: "seed_books_v2 seed_books (seeded [] 4 3 0) = Inr seeded_db"
  unfolding seed_books_def seeded_db_def
  apply (subst seed_books_v2.simps(2))
  apply (simp add: v2_eval del: seed_books_v2.simps)
  apply (subst seed_books_v2.simps(2))
  apply (simp add: v2_eval del: seed_books_v2.simps)
  apply (subst seed_books_v2.simps(2))
  apply (simp add: v2_eval del: seed_books_v2.simps)
  apply (subst seed_books_v2.simps(2))
  apply (simp add: v2_eval del: seed_books_v2.simps)
  apply (simp add: v2_eval)
  done

lemma initialize_v2_empty: "initialize_v2 empty_db = seeded_db"
  by (simp add: initialize_v2_def Let_def seed_authors_empty seed_genres_empty seed_books_v2_1)

lemma seed_books_v2_2:
  "seed_books_v2 seed_books (seeded (seeded_books 0) sa sg 4) =
     Inr (seeded (seeded_books 0 @ seeded_books 4) sa sg 8)"
  unfolding seed_books_def
  apply (subst seed_books_v2.simps(2))
  apply (simp add: v2_eval del: seed_books_v2.simps)
  apply (subst seed_books_v2.simps(2))
  apply (simp add: v2_eval del: seed_books_v2.simps)
  apply (subst seed_books_v2.simps(2))
  apply (simp add: v2_eval del: seed_books_v2.simps)
  apply (subst seed_books_v2.simps(2))
  apply (simp add: v2_eval del: seed_books_v2.simps)
  apply (simp add: v2_eval)
  done

lemma initialize_v2_seeded:
  "initialize_v2 seeded_db = seeded (seeded_books 0 @ seeded_books 4) 8 6 8"
  by (simp add: seeded_db_def initialize_v2_def Let_def seed_authors_again seed_genres_again
      seed_books_v2_2)

text \<open>
  The third version: in source order it produces the same state; in every order the
  first run stores an author, so that a second run stores nothing.
\<close>

lemma initialize_v3_empty: "initialize_v3 source_order_v3 empty_db = seeded_db"
  unfolding initialize_v3_def source_order_v3_def seed_statements_v3_def
  by (simp add: empty_db_def seeded_db_def seeded_def seeded_books_def
      seeded_authors_def seeded_genres_def sql_insert_author_def sql_insert_genre_def
      run_insert_book_v3_def sql_insert_book_def v3_schema_def rowid_defs)

lemma initialize_v3_nonempty: "authors db \<noteq> [] \<Longrightarrow> initialize_v3 order db = db"
  by (simp add: initialize_v3_def)

lemma initialize_v3_seeded: "initialize_v3 order seeded_db = seeded_db"
  by (rule initialize_v3_nonempty) (simp add: seeded_db_def seeded_def seeded_authors_def)

lemma run_insert_book_v3_authors: "authors (run_insert_book_v3 t a g p d db) = authors db"
  by (simp add: run_insert_book_v3_def sql_insert_book_def v3_schema_def Let_def)

lemma statement_v3_authors:
  assumes "s \<in> set seed_statements_v3"
  shows "length (authors db) \<le> length (authors (s db))"
  using assms
  by (auto simp: seed_statements_v3_def sql_insert_author_def sql_insert_genre_def
      run_insert_book_v3_authors Let_def)

lemma statement_v3_author_insert:
  assumes "i < 4"
  shows "length (authors db) < length (authors ((seed_statements_v3 ! i) db))"
proof -
  from assms have "i = 0 \<or> i = 1 \<or> i = 2 \<or> i = 3" by arith
  then show ?thesis
    by (auto simp: seed_statements_v3_def sql_insert_author_def Let_def)
qed

lemma statements_v3_authors:
  assumes "set os \<subseteq> {0..<11}"
  shows "length (authors db) \<le> length (authors (fold (\<lambda>i. seed_statements_v3 ! i) os db))"
  using assms
proof (induction os arbitrary: db)
  case Nil
  then show ?case by simp
next
  case (Cons i os)
  have len: "length seed_statements_v3 = 11" by (simp add: seed_statements_v3_def)
  from Cons.prems have "i < 11" by simp
  with len have "seed_statements_v3 ! i \<in> set seed_statements_v3" by simp
  from statement_v3_authors[OF this, of db] Cons.IH[of "(seed_statements_v3 ! i) db"] Cons.prems
  show ?case by simp
qed

lemma statements_v3_insert_author:
  assumes "set os \<subseteq> {0..<11}" "\<exists>i \<in> set os. i < 4"
  shows "authors (fold (\<lambda>i. seed_statements_v3 ! i) os db) \<noteq> []"
  using assms
proof (induction os arbitrary: db)
  case Nil
  then show ?case by simp
next
  case (Cons i os)
  have len: "length seed_statements_v3 = 11" by (simp add: seed_statements_v3_def)
  show ?case
  proof (cases "i < 4")
    case True
    from statement_v3_author_insert[OF True, of db]
    have "0 < length (authors ((seed_statements_v3 ! i) db))" by linarith
    moreover from Cons.prems
    have "length (authors ((seed_statements_v3 ! i) db)) \<le>
            length (authors (fold (\<lambda>i. seed_statements_v3 ! i) os ((seed_statements_v3 ! i) db)))"
      by (intro statements_v3_authors) simp
    ultimately show ?thesis by auto
  next
    case False
    with Cons.prems have "\<exists>j \<in> set os. j < 4" by auto
    with Cons.prems Cons.IH[of "(seed_statements_v3 ! i) db"] show ?thesis by simp
  qed
qed

lemma initialize_v3_again:
  assumes "is_order 11 order"
  shows "initialize_v3 order' (initialize_v3 order empty_db) = initialize_v3 order empty_db"
proof -
  from assms have sub: "set order \<subseteq> {0..<11}" and "0 \<in> set order"
    by (auto simp: is_order_def)
  then have "authors (fold (\<lambda>i. seed_statements_v3 ! i) order empty_db) \<noteq> []"
    by (intro statements_v3_insert_author bexI[of _ 0]) auto
  then have "authors (initialize_v3 order empty_db) \<noteq> []"
    by (simp add: initialize_v3_def empty_db_def)
  then show ?thesis by (rule initialize_v3_nonempty)
qed

lemma source_order_v3_upt: "source_order_v3 = [0..<11]"
  by code_simp

lemma is_order_source_v3: "is_order 11 source_order_v3"
  unfolding source_order_v3_upt by (simp add: is_order_def)

text \<open>The seeded state.\<close>

lemma pk_ok_seeded: "pk_ok seeded_db"
  by (simp add: pk_ok_def seeded_eval)

lemma next_bookid_seeded: "next_bookid seeded_db = 5"
  by (simp add: next_bookid_def seeded_eval rowid_defs)

lemma get_book_seeded_1:
  "get_book seeded_db 1 = (Response 200
     (JObj [(''bookid'', JNum 1), (''title'', JStr ''Harry Potter and the Sorcerer's Stone''),
            (''author'', JStr ''J.K. Rowling''), (''genre'', JStr ''Fantasy''),
            (''pages'', JNum 309), (''publishedDate'', JStr ''1997-06-26'')]), seeded_db)"
  by (simp add: get_book_def books_join_def book_json_def seeded_eval)

lemma get_book_seeded_2:
  "get_book seeded_db 2 = (Response 200
     (JObj [(''bookid'', JNum 2), (''title'', JStr ''1984''),
            (''author'', JStr ''George Orwell''), (''genre'', JStr ''Dystopian''),
            (''pages'', JNum 328), (''publishedDate'', JStr ''1949-06-08'')]), seeded_db)"
  by (simp add: get_book_def books_join_def book_json_def seeded_eval)

lemma get_book_v2_eq: "get_book_v2 = get_book"
  by (intro ext) (simp add: get_book_v2_def get_book_def)

lemma get_book_v3_eq: "get_book_v3 = get_book"
  unfolding get_book_v3_def get_book_def errorResponse_def by (rule refl)


lemma post_v3_orphan:
  "snd (post_books_v3 (initialize_v3 source_order_v3 empty_db) orphan) = seeded (seeded_books 0 @ [orphan_row]) 4 3 5"
  unfolding initialize_v3_empty
  by (simp add: post_books_v3_def sql_insert_book_def v3_schema_def orphan_def orphan_row_def
      seeded_eval rowid_defs)

section \<open>The claims\<close>

subsection \<open>C1: create, then read\<close>

text \<open>
  Claim C1, as the code has it. For every body whose five fields pass the check of
  \<^verbatim>\<open>POST /books\<close> (strings not empty, numbers not 0) and whose \<^verbatim>\<open>authorid\<close> and
  \<^verbatim>\<open>genreid\<close> name an author row \<open>a\<close> and a genre row \<open>g\<close>, in a database with
  distinct primary keys: \<^verbatim>\<open>POST /books\<close> answers 201 with the new \<^verbatim>\<open>bookid\<close>, and
  \<^verbatim>\<open>GET /books/:id\<close> with that id then answers 200 with the body's title, pages and
  publishedDate and the names of \<open>a\<close> and \<open>g\<close>.
\<close>

theorem post_then_get:
  assumes keys: "pk_ok db"
    and t: "title bd = Some t" "t \<noteq> []"
    and a: "authorid bd = Some (a_authorid a)" "a_authorid a \<noteq> 0" "a \<in> set (authors db)"
    and g: "genreid bd = Some (g_genreid g)" "g_genreid g \<noteq> 0" "g \<in> set (genres db)"
    and p: "pages bd = Some p" "p \<noteq> 0"
    and d: "publishedDate bd = Some d" "d \<noteq> []"
  shows "fst (post_books db bd) = Response 201 (JObj [(''bookid'', JNum (next_bookid db))]) \<and>
         get_book (snd (post_books db bd)) (next_bookid db) =
           (Response 200
              (JObj [(''bookid'', JNum (next_bookid db)), (''title'', JStr t),
                     (''author'', JStr (a_name a)), (''genre'', JStr (g_name g)),
                     (''pages'', JNum p), (''publishedDate'', JStr d)]),
            snd (post_books db bd))"
proof -
  let ?k = "next_bookid db"
  let ?row = "\<lparr>b_bookid = ?k, b_title = Some t, b_authorid = Some (a_authorid a),
               b_genreid = Some (g_genreid g), b_pages = Some p, b_publishedDate = Some d\<rparr>"
  let ?db' = "db\<lparr>books := books db @ [?row], seq_books := ?k\<rparr>"
  have fk: "fk_ok db (Some (a_authorid a)) (Some (g_genreid g))"
    using a(3) g(3) by (simp add: fk_ok_def)
  have ins: "sql_insert_book index_schema db (Some t) (Some (a_authorid a)) (Some (g_genreid g))
               (Some p) (Some d) = Inr (?k, ?db')"
    using fk by (simp add: sql_insert_book_ok next_bookid_def)
  have post: "post_books db bd = (Response 201 (JObj [(''bookid'', JNum ?k)]), ?db')"
    using t a g p d ins by (simp add: post_books_def)
  have fresh: "?k \<notin> set (map b_bookid (books db))"
    unfolding next_bookid_def by (rule new_rowid_fresh)
  have sel: "filter (\<lambda>b. b_bookid b = ?k) (books ?db') = [?row]"
    using filter_fresh_bookid[OF fresh] by simp
  have "books_join ?db' [?row] = books_join db [?row]"
    by (rule books_join_cong) simp_all
  also have "\<dots> = [(?row, a, g)]"
    using keys a(3) g(3) by (intro books_join_resolved) (simp_all add: pk_ok_def)
  finally have join: "books_join ?db' [?row] = [(?row, a, g)]" .
  have "get_book ?db' ?k = (Response 200 (book_json (?row, a, g)), ?db')"
    unfolding get_book_def sel join by simp
  then show ?thesis
    unfolding post by (simp add: book_json_def)
qed

text \<open>The theorem at the seeded database, for a book by author 2 in genre 2.\<close>

theorem post_then_get_witness:
  "fst (post_books (initialize source_order empty_db) (animal_farm 112)) =
     Response 201 (JObj [(''bookid'', JNum 5)]) \<and>
   fst (get_book (snd (post_books (initialize source_order empty_db) (animal_farm 112))) 5) =
     Response 200
       (JObj [(''bookid'', JNum 5), (''title'', JStr ''Animal Farm''),
              (''author'', JStr ''George Orwell''), (''genre'', JStr ''Dystopian''),
              (''pages'', JNum 112), (''publishedDate'', JStr ''1945-08-17'')])"
proof -
  let ?a = "\<lparr>a_authorid = 2, a_name = ''George Orwell''\<rparr>"
  let ?g = "\<lparr>g_genreid = 2, g_name = ''Dystopian'', g_description = Some ''A genre of speculative fiction set in a futuristic society with oppression and control''\<rparr>"
  have a: "?a \<in> set (authors seeded_db)" by (simp add: seeded_eval)
  have g: "?g \<in> set (genres seeded_db)" by (simp add: seeded_eval)
  from post_then_get[of seeded_db "animal_farm 112" "''Animal Farm''" ?a ?g 112 "''1945-08-17''"]
    pk_ok_seeded a g
  show ?thesis
    unfolding initialize_empty by (simp add: animal_farm_def next_bookid_seeded)
qed

text \<open>
  A field that is present is not enough: with all five fields present and both keys
  naming seeded rows, \<^verbatim>\<open>pages: 0\<close> makes \<^verbatim>\<open>POST /books\<close> answer 400 and store nothing.
\<close>

theorem zero_pages_counterexample:
  "title (animal_farm 0) \<noteq> None \<and> pages (animal_farm 0) \<noteq> None \<and>
   publishedDate (animal_farm 0) \<noteq> None \<and>
   authorid (animal_farm 0) \<in> Some ` a_authorid ` set (authors (initialize source_order empty_db)) \<and>
   genreid (animal_farm 0) \<in> Some ` g_genreid ` set (genres (initialize source_order empty_db)) \<and>
   post_books (initialize source_order empty_db) (animal_farm 0) =
     (Response 400 (JObj [(''error'', JStr ''All fields are required'')]), initialize source_order empty_db)"
  unfolding initialize_empty
  by (simp add: animal_farm_def post_books_def errorResponse_def seeded_eval)

subsection \<open>C2: a missing field\<close>

text \<open>
  Claim C2, as the code has it. In \<^verbatim>\<open>src/index.js\<close> and in the \<^verbatim>\<open>better-sqlite3\<close>
  version, \<^verbatim>\<open>POST /books\<close> and \<^verbatim>\<open>PUT /books/:id\<close> with a body in which one of the five
  fields is missing, \<^verbatim>\<open>null\<close>, \<^verbatim>\<open>0\<close> or \<^verbatim>\<open>""\<close> answer 400 with the fixed message and
  leave the database as it was. The third version has no check: its \<^verbatim>\<open>POST /books\<close>
  answers 201 and adds a row for the same body.
\<close>

theorem missing_field_rejected:
  assumes "title bd = None \<or> title bd = Some [] \<or> authorid bd = None \<or> authorid bd = Some 0 \<or>
           genreid bd = None \<or> genreid bd = Some 0 \<or> pages bd = None \<or> pages bd = Some 0 \<or>
           publishedDate bd = None \<or> publishedDate bd = Some []"
  shows "post_books db bd = (Response 400 (JObj [(''error'', JStr ''All fields are required'')]), db) \<and>
         put_books db ident bd = (Response 400 (JObj [(''error'', JStr ''All fields are required'')]), db) \<and>
         post_books_v2 db bd = (Response 400 (JObj [(''error'', JStr ''All fields are required'')]), db) \<and>
         put_books_v2 db ident bd = (Response 400 (JObj [(''error'', JStr ''All fields are required'')]), db) \<and>
         fst (post_books_v3 db bd) = Response 201 (JObj [(''bookid'', JNum (next_bookid db))]) \<and>
         length (books (snd (post_books_v3 db bd))) = length (books db) + 1 \<and>
         books (snd (post_books_v3 db bd)) =
           books db @ [\<lparr>b_bookid = next_bookid db, b_title = title bd, b_authorid = authorid bd,
                         b_genreid = genreid bd, b_pages = pages bd,
                         b_publishedDate = publishedDate bd\<rparr>]"
  using check_rejects[OF assms]
  by (simp add: post_books_def put_books_def post_books_v2_def put_books_v2_def errorResponse_def
      post_books_v3_def sql_insert_book_def v3_schema_def next_bookid_def Let_def)

text \<open>The theorem at the seeded database, for a body without any field.\<close>

theorem missing_field_rejected_witness:
  "post_books (initialize source_order empty_db) no_fields =
     (Response 400 (JObj [(''error'', JStr ''All fields are required'')]), initialize source_order empty_db) \<and>
   put_books_v2 (initialize source_order empty_db) 1 no_fields =
     (Response 400 (JObj [(''error'', JStr ''All fields are required'')]), initialize source_order empty_db)"
  using missing_field_rejected[of no_fields "initialize source_order empty_db" 1]
  by (simp add: no_fields_def)

text \<open>
  The third version, on its seeded database, stores the body without any field as
  book 5, a row of \<^verbatim>\<open>NULL\<close>s, and answers 201.
\<close>

theorem post_v3_counterexample:
  "fst (post_books_v3 (initialize_v3 source_order_v3 empty_db) no_fields) = Response 201 (JObj [(''bookid'', JNum 5)]) \<and>
   books (snd (post_books_v3 (initialize_v3 source_order_v3 empty_db) no_fields)) =
     books (initialize_v3 source_order_v3 empty_db) @
       [\<lparr>b_bookid = 5, b_title = None, b_authorid = None, b_genreid = None, b_pages = None,
         b_publishedDate = None\<rparr>]"
  unfolding initialize_v3_empty
  by (simp add: post_books_v3_def sql_insert_book_def v3_schema_def no_fields_def seeded_eval
      rowid_defs)

subsection \<open>C3: an id that names no book\<close>

text \<open>
  Claim C3, as the code has it. For an id that is the \<^verbatim>\<open>bookid\<close> of no row of the
  books table, \<^verbatim>\<open>GET /books/:id\<close> and \<^verbatim>\<open>DELETE /books/:id\<close> answer 404, and so does
  \<^verbatim>\<open>PUT /books/:id\<close> with a body whose five fields pass the check (strings not empty,
  numbers not 0); any other body is answered 400 before the id is looked at. The
  database is unchanged each time.
\<close>

theorem unknown_id_not_found:
  assumes "ident \<notin> set (map b_bookid (books db))"
  shows "get_book db ident = (Response 404 (JObj [(''error'', JStr ''Book not found'')]), db) \<and>
         delete_books db ident = (Response 404 (JObj [(''error'', JStr ''Book not found'')]), db) \<and>
         put_books db ident bd =
           (if truthy_str (title bd) \<and> truthy_num (authorid bd) \<and> truthy_num (genreid bd) \<and>
               truthy_num (pages bd) \<and> truthy_str (publishedDate bd)
            then Response 404 (JObj [(''error'', JStr ''Book not found'')])
            else Response 400 (JObj [(''error'', JStr ''All fields are required'')]), db)"
proof -
  have none: "filter (\<lambda>b. b_bookid b = ident) (books db) = []"
    using assms(1) by (rule filter_fresh_bookid)
  have same: "filter (\<lambda>b. b_bookid b \<noteq> ident) (books db) = books db"
    using assms(1) by (rule filter_other_bookid)
  have 1: "get_book db ident = (Response 404 (JObj [(''error'', JStr ''Book not found'')]), db)"
    by (simp add: get_book_def none books_join_Nil errorResponse_def)
  have 2: "delete_books db ident = (Response 404 (JObj [(''error'', JStr ''Book not found'')]), db)"
    by (simp add: delete_books_def sql_delete_book_def none same errorResponse_def)
  have upd: "sql_update_book index_schema db (title bd) (authorid bd) (genreid bd) (pages bd)
          (publishedDate bd) ident = Inr (0, db)"
    by (simp add: sql_update_book_def none)
  have 3: "put_books db ident bd =
           (if truthy_str (title bd) \<and> truthy_num (authorid bd) \<and> truthy_num (genreid bd) \<and>
               truthy_num (pages bd) \<and> truthy_str (publishedDate bd)
            then Response 404 (JObj [(''error'', JStr ''Book not found'')])
            else Response 400 (JObj [(''error'', JStr ''All fields are required'')]), db)"
    unfolding put_books_def upd by (auto simp: errorResponse_def)
  from 1 2 3 show ?thesis by simp
qed

text \<open>The theorem at the seeded database, for id 9.\<close>

theorem unknown_id_not_found_witness:
  "9 \<notin> set (map b_bookid (books (initialize source_order empty_db))) \<and>
   get_book (initialize source_order empty_db) 9 =
     (Response 404 (JObj [(''error'', JStr ''Book not found'')]), initialize source_order empty_db) \<and>
   delete_books (initialize source_order empty_db) 9 =
     (Response 404 (JObj [(''error'', JStr ''Book not found'')]), initialize source_order empty_db) \<and>
   put_books (initialize source_order empty_db) 9 (animal_farm 112) =
     (Response 404 (JObj [(''error'', JStr ''Book not found'')]), initialize source_order empty_db)"
proof -
  have "9 \<notin> set (map b_bookid (books (initialize source_order empty_db)))"
    unfolding initialize_empty by (simp add: seeded_eval)
  from this unknown_id_not_found[OF this, of "animal_farm 112"]
  show ?thesis by (simp add: animal_farm_def)
qed

text \<open>
  A body with all five fields is not enough: for id 9, which names no seeded book,
  \<^verbatim>\<open>PUT /books/9\<close> with \<^verbatim>\<open>pages: 0\<close> answers 400, not 404.
\<close>

theorem put_zero_pages_counterexample:
  "9 \<notin> set (map b_bookid (books (initialize source_order empty_db))) \<and>
   title (animal_farm 0) \<noteq> None \<and> authorid (animal_farm 0) \<noteq> None \<and>
   genreid (animal_farm 0) \<noteq> None \<and> pages (animal_farm 0) \<noteq> None \<and>
   publishedDate (animal_farm 0) \<noteq> None \<and>
   put_books (initialize source_order empty_db) 9 (animal_farm 0) =
     (Response 400 (JObj [(''error'', JStr ''All fields are required'')]),
      initialize source_order empty_db)"
  unfolding initialize_empty
  by (simp add: animal_farm_def put_books_def errorResponse_def seeded_eval)

subsection \<open>C4: seeding twice\<close>

text \<open>
  Claim C4 says that a second run of the setup leaves four authors, three genres and
  four books. The code of \<^verbatim>\<open>src/index.js\<close> and of the \<^verbatim>\<open>better-sqlite3\<close> version writes
  the books with \<^verbatim>\<open>INSERT OR IGNORE\<close>, but the books table has no \<^verbatim>\<open>UNIQUE\<close> column
  that a second copy could violate: whatever the order of the inserts in either run,
  the second run stores the four books again, as books 5 to 8. Authors and genres
  stay at four and three. The third version, which seeds only an empty authors table,
  is idempotent in every order.
\<close>

theorem reseeding_duplicates_books:
  assumes "is_order 4 o1" "is_order 4 o2" "is_order 11 o3"
  shows "map b_bookid (books (initialize o2 (initialize o1 empty_db))) = [1, 2, 3, 4, 5, 6, 7, 8] \<and>
         map b_title (books (initialize o2 (initialize o1 empty_db))) =
           map (\<lambda>j. Some (sb_title (seed_books ! j))) (o1 @ o2) \<and>
         length (books (initialize o1 empty_db)) = 4 \<and>
         length (authors (initialize o2 (initialize o1 empty_db))) = 4 \<and>
         length (genres (initialize o2 (initialize o1 empty_db))) = 3 \<and>
         initialize_v2 (initialize_v2 empty_db) =
           initialize source_order (initialize source_order empty_db) \<and>
         initialize_v3 o4 (initialize_v3 o3 empty_db) = initialize_v3 o3 empty_db"
proof -
  note twice = initialize_twice_order[OF assms(1,2)]
  have l1: "length o1 = 4" and l2: "length o2 = 4"
    using assms(1,2) by (simp_all add: is_order_length)
  have 1: "map b_bookid (books (initialize o2 (initialize o1 empty_db))) = [1, 2, 3, 4, 5, 6, 7, 8]"
    unfolding twice by (simp add: seeded_def bookids_number_books l1 l2 upt_4)
  have 2: "map b_title (books (initialize o2 (initialize o1 empty_db))) =
           map (\<lambda>j. Some (sb_title (seed_books ! j))) (o1 @ o2)"
    unfolding twice by (simp add: seeded_def titles_of_order[OF assms(1)] titles_of_order[OF assms(2)])
  have 3: "length (books (initialize o1 empty_db)) = 4"
    unfolding initialize_empty_order[OF assms(1)] by (simp add: seeded_def length_number_books l1)
  have 4: "length (authors (initialize o2 (initialize o1 empty_db))) = 4"
    unfolding twice by (simp add: seeded_def seeded_authors_def)
  have 5: "length (genres (initialize o2 (initialize o1 empty_db))) = 3"
    unfolding twice by (simp add: seeded_def seeded_genres_def)
  have 6: "initialize_v2 (initialize_v2 empty_db) =
           initialize source_order (initialize source_order empty_db)"
    unfolding initialize_v2_empty initialize_empty initialize_v2_seeded initialize_seeded
    by (rule refl)
  have 7: "initialize_v3 o4 (initialize_v3 o3 empty_db) = initialize_v3 o3 empty_db"
    using assms(3) by (rule initialize_v3_again)
  show ?thesis
    by (rule conjI[OF 1 conjI[OF 2 conjI[OF 3 conjI[OF 4 conjI[OF 5 conjI[OF 6 7]]]]]])
qed

text \<open>The theorem for two runs in source order: the titles of the first run come twice.\<close>

theorem reseeding_duplicates_books_witness:
  "map b_bookid (books (initialize source_order (initialize source_order empty_db))) =
     [1, 2, 3, 4, 5, 6, 7, 8] \<and>
   map b_title (books (initialize source_order (initialize source_order empty_db))) =
     map b_title (books (initialize source_order empty_db)) @
     map b_title (books (initialize source_order empty_db)) \<and>
   length (books (initialize source_order empty_db)) = 4 \<and>
   length (authors (initialize source_order (initialize source_order empty_db))) = 4 \<and>
   length (genres (initialize source_order (initialize source_order empty_db))) = 3 \<and>
   initialize_v2 (initialize_v2 empty_db) =
     initialize source_order (initialize source_order empty_db) \<and>
   initialize_v3 source_order_v3 (initialize_v3 source_order_v3 empty_db) =
     initialize_v3 source_order_v3 empty_db"
proof -
  note t = reseeding_duplicates_books[OF is_order_source is_order_source is_order_source_v3,
      of source_order_v3]
  have titles: "map b_title (books (initialize source_order empty_db)) =
      map (\<lambda>j. Some (sb_title (seed_books ! j))) source_order"
    unfolding initialize_empty
    by (simp add: seeded_eval source_order_def seed_books_def)
  from t show ?thesis unfolding titles by simp
qed

subsection \<open>C5: the seeded books\<close>

text \<open>
  Claim C5, as the code has it. After seeding the empty database with
  \<^verbatim>\<open>src/index.js\<close>, the insert that runs as number \<open>i\<close> (from 0) stores its book under
  \<^verbatim>\<open>bookid\<close> \<open>i + 1\<close>, and \<^verbatim>\<open>GET /books/(i + 1)\<close> answers 200 with that seed book: its
  title, pages and date, the names of its author and genre, and the key as member
  \<^verbatim>\<open>bookid\<close>. So the book 1984 is returned, with George Orwell and Dystopian, under
  the key that its insert drew. In the \<^verbatim>\<open>better-sqlite3\<close> version, which runs in source
  order, 1984 is book 2 and book 1 is Harry Potter and the Sorcerer's Stone; the third
  version gives the same answers when its inserts run in source order.
\<close>

theorem seeded_book_by_insert_order:
  assumes "is_order 4 order" "i < 4"
  shows "get_book (initialize order empty_db) (int i + 1) =
           (Response 200 (seed_book_json (int i + 1) (seed_books ! (order ! i))),
            initialize order empty_db) \<and>
         (order ! i = 1 \<longrightarrow>
            fst (get_book (initialize order empty_db) (int i + 1)) =
              Response 200
                (JObj [(''bookid'', JNum (int i + 1)), (''title'', JStr ''1984''),
                       (''author'', JStr ''George Orwell''), (''genre'', JStr ''Dystopian''),
                       (''pages'', JNum 328), (''publishedDate'', JStr ''1949-06-08'')])) \<and>
         fst (get_book_v2 (initialize_v2 empty_db) 2) =
           Response 200
             (JObj [(''bookid'', JNum 2), (''title'', JStr ''1984''),
                    (''author'', JStr ''George Orwell''), (''genre'', JStr ''Dystopian''),
                    (''pages'', JNum 328), (''publishedDate'', JStr ''1949-06-08'')]) \<and>
         fst (get_book_v2 (initialize_v2 empty_db) 1) =
           Response 200
             (JObj [(''bookid'', JNum 1),
                    (''title'', JStr ''Harry Potter and the Sorcerer's Stone''),
                    (''author'', JStr ''J.K. Rowling''), (''genre'', JStr ''Fantasy''),
                    (''pages'', JNum 309), (''publishedDate'', JStr ''1997-06-26'')]) \<and>
         get_book_v3 (initialize_v3 source_order_v3 empty_db) = get_book_v2 (initialize_v2 empty_db)"
proof -
  note g = get_book_seeded_order[OF assms]
  have 2: "order ! i = 1 \<longrightarrow>
            fst (get_book (initialize order empty_db) (int i + 1)) =
              Response 200
                (JObj [(''bookid'', JNum (int i + 1)), (''title'', JStr ''1984''),
                       (''author'', JStr ''George Orwell''), (''genre'', JStr ''Dystopian''),
                       (''pages'', JNum 328), (''publishedDate'', JStr ''1949-06-08'')])"
  proof
    assume "order ! i = 1"
    from seed_book_json_1984[OF this, of "int i + 1"] g show "fst (get_book (initialize order empty_db) (int i + 1)) =
              Response 200
                (JObj [(''bookid'', JNum (int i + 1)), (''title'', JStr ''1984''),
                       (''author'', JStr ''George Orwell''), (''genre'', JStr ''Dystopian''),
                       (''pages'', JNum 328), (''publishedDate'', JStr ''1949-06-08'')])"
      by simp
  qed
  have 3: "fst (get_book_v2 (initialize_v2 empty_db) 2) =
           Response 200
             (JObj [(''bookid'', JNum 2), (''title'', JStr ''1984''),
                    (''author'', JStr ''George Orwell''), (''genre'', JStr ''Dystopian''),
                    (''pages'', JNum 328), (''publishedDate'', JStr ''1949-06-08'')])"
    unfolding initialize_v2_empty get_book_v2_eq get_book_seeded_2 by simp
  have 4: "fst (get_book_v2 (initialize_v2 empty_db) 1) =
           Response 200
             (JObj [(''bookid'', JNum 1),
                    (''title'', JStr ''Harry Potter and the Sorcerer's Stone''),
                    (''author'', JStr ''J.K. Rowling''), (''genre'', JStr ''Fantasy''),
                    (''pages'', JNum 309), (''publishedDate'', JStr ''1997-06-26'')])"
    unfolding initialize_v2_empty get_book_v2_eq get_book_seeded_1 by simp
  have 5: "get_book_v3 (initialize_v3 source_order_v3 empty_db) = get_book_v2 (initialize_v2 empty_db)"
    unfolding initialize_v2_empty initialize_v3_empty get_book_v2_eq get_book_v3_eq by (rule refl)
  show ?thesis by (rule conjI[OF g conjI[OF 2 conjI[OF 3 conjI[OF 4 5]]]])
qed

text \<open>The theorem for source order, and for an order in which 1984 is inserted first.\<close>

theorem seeded_book_by_insert_order_witness:
  "is_order 4 source_order \<and> source_order ! 1 = 1 \<and>
   fst (get_book (initialize source_order empty_db) 2) =
     Response 200
       (JObj [(''bookid'', JNum 2), (''title'', JStr ''1984''),
              (''author'', JStr ''George Orwell''), (''genre'', JStr ''Dystopian''),
              (''pages'', JNum 328), (''publishedDate'', JStr ''1949-06-08'')]) \<and>
   is_order 4 order_1984_first \<and> order_1984_first ! 0 = 1 \<and>
   fst (get_book (initialize order_1984_first empty_db) 1) =
     Response 200
       (JObj [(''bookid'', JNum 1), (''title'', JStr ''1984''),
              (''author'', JStr ''George Orwell''), (''genre'', JStr ''Dystopian''),
              (''pages'', JNum 328), (''publishedDate'', JStr ''1949-06-08'')])"
proof -
  have a: "source_order ! 1 = 1" by (simp add: source_order_def)
  have b: "order_1984_first ! 0 = 1" by (simp add: order_1984_first_def)
  have "(1::nat) < 4" by simp
  from seeded_book_by_insert_order[OF is_order_source this, THEN conjunct2, THEN conjunct1] a
  have 1: "fst (get_book (initialize source_order empty_db) (int 1 + 1)) =
     Response 200
       (JObj [(''bookid'', JNum (int 1 + 1)), (''title'', JStr ''1984''),
              (''author'', JStr ''George Orwell''), (''genre'', JStr ''Dystopian''),
              (''pages'', JNum 328), (''publishedDate'', JStr ''1949-06-08'')])"
    by (rule mp)
  have "(0::nat) < 4" by simp
  from seeded_book_by_insert_order[OF is_order_1984_first this, THEN conjunct2, THEN conjunct1] b
  have 2: "fst (get_book (initialize order_1984_first empty_db) (int 0 + 1)) =
     Response 200
       (JObj [(''bookid'', JNum (int 0 + 1)), (''title'', JStr ''1984''),
              (''author'', JStr ''George Orwell''), (''genre'', JStr ''Dystopian''),
              (''pages'', JNum 328), (''publishedDate'', JStr ''1949-06-08'')])"
    by (rule mp)
  from 1 have 1: "fst (get_book (initialize source_order empty_db) 2) =
     Response 200
       (JObj [(''bookid'', JNum 2), (''title'', JStr ''1984''),
              (''author'', JStr ''George Orwell''), (''genre'', JStr ''Dystopian''),
              (''pages'', JNum 328), (''publishedDate'', JStr ''1949-06-08'')])"
    by simp
  from 2 have 2: "fst (get_book (initialize order_1984_first empty_db) 1) =
     Response 200
       (JObj [(''bookid'', JNum 1), (''title'', JStr ''1984''),
              (''author'', JStr ''George Orwell''), (''genre'', JStr ''Dystopian''),
              (''pages'', JNum 328), (''publishedDate'', JStr ''1949-06-08'')])"
    by simp
  show ?thesis
    by (intro conjI is_order_source a 1 is_order_1984_first b 2)
qed

text \<open>
  The object that \<^verbatim>\<open>GET /books/1\<close> returns after seeding is not the object of the
  claim, whatever the order of the members: in source order it is the Harry Potter
  book, and even when 1984 is inserted first its key is the member \<^verbatim>\<open>bookid\<close>, not
  \<^verbatim>\<open>id\<close>.
\<close>

theorem seeded_book_1_counterexample:
  "status (fst (get_book (initialize source_order empty_db) 1)) = 200 \<and>
   set (members (body (fst (get_book (initialize source_order empty_db) 1)))) \<noteq>
     set [(''id'', JNum 1), (''title'', JStr ''1984''), (''author'', JStr ''George Orwell''),
          (''genre'', JStr ''Dystopian''), (''pages'', JNum 328),
          (''publishedDate'', JStr ''1949-06-08'')] \<and>
   map_of (members (body (fst (get_book (initialize source_order empty_db) 1)))) ''title'' =
     Some (JStr ''Harry Potter and the Sorcerer's Stone'') \<and>
   status (fst (get_book (initialize order_1984_first empty_db) 1)) = 200 \<and>
   set (members (body (fst (get_book (initialize order_1984_first empty_db) 1)))) \<noteq>
     set [(''id'', JNum 1), (''title'', JStr ''1984''), (''author'', JStr ''George Orwell''),
          (''genre'', JStr ''Dystopian''), (''pages'', JNum 328),
          (''publishedDate'', JStr ''1949-06-08'')] \<and>
   map_of (members (body (fst (get_book (initialize order_1984_first empty_db) 1)))) ''id'' = None"
proof -
  let ?claimed = "[(''id'', JNum 1), (''title'', JStr ''1984''), (''author'', JStr ''George Orwell''),
          (''genre'', JStr ''Dystopian''), (''pages'', JNum 328),
          (''publishedDate'', JStr ''1949-06-08'')]"
  have s: "get_book (initialize source_order empty_db) 1 =
      (Response 200 (seed_book_json 1 (seed_books ! 0)), initialize source_order empty_db)"
    using get_book_seeded_order[OF is_order_source, of 0] by (simp add: source_order_def)
  have f: "get_book (initialize order_1984_first empty_db) 1 =
      (Response 200 (seed_book_json 1 (seed_books ! 1)), initialize order_1984_first empty_db)"
    using get_book_seeded_order[OF is_order_1984_first, of 0] by (simp add: order_1984_first_def)
  have "(''id'', JNum 1) \<notin> set (members (seed_book_json 1 (seed_books ! 0)))"
    "(''id'', JNum 1) \<notin> set (members (seed_book_json 1 (seed_books ! 1)))"
    by (simp_all add: seed_book_json_def)
  then have ne: "set (members (seed_book_json 1 (seed_books ! 0))) \<noteq> set ?claimed"
    "set (members (seed_book_json 1 (seed_books ! 1))) \<noteq> set ?claimed"
    by (metis list.set_intros(1))+
  have t: "map_of (members (seed_book_json 1 (seed_books ! 0))) ''title'' =
      Some (JStr ''Harry Potter and the Sorcerer's Stone'')"
    "map_of (members (seed_book_json 1 (seed_books ! 1))) ''id'' = None"
    by (simp_all add: seed_book_json_def seed_books_def)
  show ?thesis unfolding s f using ne t by simp
qed

subsection \<open>C6: the offset of the list route\<close>




subsection \<open>C7: a book whose author or genre does not resolve\<close>

text \<open>
  Claim C7. In a database with distinct primary keys, a stored book whose \<^verbatim>\<open>authorid\<close>
  or \<^verbatim>\<open>genreid\<close> is \<^verbatim>\<open>NULL\<close> or names no row is not found by \<^verbatim>\<open>GET /books/:id\<close> (404)
  and is in no page of \<^verbatim>\<open>GET /books\<close>, while its row stays in the books table.
\<close>

theorem unresolved_book_hidden:
  assumes "pk_ok db" "b \<in> set (books db)" "unresolved db b"
  shows "get_book db (b_bookid b) = (Response 404 (JObj [(''error'', JStr ''Book not found'')]), db) \<and>
         Some (JNum (b_bookid b)) \<notin> set (bookids (fst (get_books db q))) \<and>
         b \<in> set (books (snd (get_books db q)))"
proof -
  from assms(1) have d: "distinct (map b_bookid (books db))" by (simp add: pk_ok_def)
  have sel: "filter (\<lambda>y. b_bookid y = b_bookid b) (books db) = [b]"
    using d assms(2) by (rule filter_key_unique)
  have 1: "get_book db (b_bookid b) = (Response 404 (JObj [(''error'', JStr ''Book not found'')]), db)"
    by (simp add: get_book_def sel books_join_unresolved[OF assms(3)] errorResponse_def)
  have 2: "Some (JNum (b_bookid b)) \<notin> set (bookids (fst (get_books db q)))"
  proof
    assume "Some (JNum (b_bookid b)) \<in> set (bookids (fst (get_books db q)))"
    then obtain row where
      row: "row \<in> set (sql_limit_offset (fst (page_params q)) (snd (page_params q))
                         (sql_distinct (map book_list_json (books_join db (books db)))))"
      and k: "map_of (members row) ''bookid'' = Some (JNum (b_bookid b))"
      by (auto simp: bookids_def get_books_ok)
    from row have "row \<in> set (map book_list_json (books_join db (books db)))"
      using set_sql_limit_offset set_sql_distinct by fastforce
    then obtain b' a g where mem: "(b', a, g) \<in> set (books_join db (books db))"
      and r: "row = book_list_json (b', a, g)" by auto
    from k r have same: "b_bookid b' = b_bookid b" by (simp add: bookid_of_list_row)
    from mem have b': "b' \<in> set (books db)" "a \<in> set (authors db)"
      "b_authorid b' = Some (a_authorid a)" "g \<in> set (genres db)" "b_genreid b' = Some (g_genreid g)"
      by (simp_all add: books_join_mem)
    from d have "inj_on b_bookid (set (books db))" by (simp add: distinct_map)
    with same b'(1) assms(2) have "b' = b" by (auto dest: inj_onD)
    with b' assms(3) show False by (auto simp: unresolved_def)
  qed
  have 3: "b \<in> set (books (snd (get_books db q)))"
    using assms(2) by (simp add: get_books_ok)
  from 1 2 3 show ?thesis by simp
qed

text \<open>
  The theorem for a book with author 9, stored through the third version, which
  enforces no foreign key.
\<close>

theorem unresolved_book_hidden_witness:
  "orphan_row \<in> set (books (snd (post_books_v3 (initialize_v3 source_order_v3 empty_db) orphan))) \<and>
   get_book (snd (post_books_v3 (initialize_v3 source_order_v3 empty_db) orphan)) 5 =
     (Response 404 (JObj [(''error'', JStr ''Book not found'')]),
      snd (post_books_v3 (initialize_v3 source_order_v3 empty_db) orphan)) \<and>
   Some (JNum 5) \<notin> set (bookids (fst (get_books (snd (post_books_v3 (initialize_v3 source_order_v3 empty_db) orphan))
                                         no_paging)))"
proof -
  let ?db = "seeded (seeded_books 0 @ [orphan_row]) 4 3 5"
  have 1: "pk_ok ?db" by (simp add: pk_ok_def seeded_eval orphan_row_def)
  have 2: "orphan_row \<in> set (books ?db)" by (simp add: seeded_def)
  have 3: "unresolved ?db orphan_row"
    by (simp add: unresolved_def seeded_eval orphan_row_def)
  have 4: "b_bookid orphan_row = 5" by (simp add: orphan_row_def)
  from unresolved_book_hidden[OF 1 2 3, of "no_paging"] 2
  show ?thesis unfolding post_v3_orphan 4 by simp
qed

subsection \<open>C8: delete, then read\<close>

text \<open>
  Claim C8. When \<^verbatim>\<open>DELETE /books/:id\<close> answers 200, \<^verbatim>\<open>GET /books/:id\<close> for the same id
  then answers 404.
\<close>

theorem delete_then_get:
  assumes "status (fst (delete_books db ident)) = 200"
  shows "fst (get_book (snd (delete_books db ident)) ident) =
           Response 404 (JObj [(''error'', JStr ''Book not found'')])"
proof -
  have "filter (\<lambda>b. b_bookid b = ident) (filter (\<lambda>b. b_bookid b \<noteq> ident) (books db)) = []"
    by (simp add: filter_empty_conv)
  then show ?thesis
    by (simp add: delete_books_def sql_delete_book_def get_book_def books_join_Nil errorResponse_def)
qed

text \<open>The theorem for book 1 of the seeded database.\<close>

theorem delete_then_get_witness:
  "status (fst (delete_books (initialize source_order empty_db) 1)) = 200 \<and>
   fst (get_book (snd (delete_books (initialize source_order empty_db) 1)) 1) =
     Response 404 (JObj [(''error'', JStr ''Book not found'')])"
proof -
  have "status (fst (delete_books (initialize source_order empty_db) 1)) = 200"
    unfolding initialize_empty by (simp add: delete_books_def sql_delete_book_def seeded_eval)
  from this delete_then_get[OF this] show ?thesis by simp
qed

subsection \<open>C9: what the routes leave alone\<close>

text \<open>
  Claim C9. No route changes the authors or genres table, and seeding removes no row
  of them. \<^verbatim>\<open>PUT /books/:id\<close> keeps the keys of all books and every row with another
  key; \<^verbatim>\<open>DELETE /books/:id\<close> keeps exactly the rows with another key; and with
  distinct primary keys at most one row has the key of the path.
\<close>

theorem reference_tables_and_other_books_kept:
  "authors (snd (handle db r)) = authors db \<and> genres (snd (handle db r)) = genres db \<and>
   set (authors db) \<subseteq> set (authors (initialize order db)) \<and>
   set (genres db) \<subseteq> set (genres (initialize order db)) \<and>
   map b_bookid (books (snd (put_books db ident bd))) = map b_bookid (books db) \<and>
   filter (\<lambda>b. b_bookid b \<noteq> ident) (books (snd (put_books db ident bd))) =
     filter (\<lambda>b. b_bookid b \<noteq> ident) (books db) \<and>
   books (snd (delete_books db ident)) = filter (\<lambda>b. b_bookid b \<noteq> ident) (books db) \<and>
   (pk_ok db \<longrightarrow> length (filter (\<lambda>b. b_bookid b = ident) (books db)) \<le> 1)"
  using handle_frame[of db r] initialize_keep[of db order] put_books_frame[of db ident bd]
    delete_books_frame[of db ident] pk_at_most_one[of db ident]
  by simp

text \<open>The theorem for book 2 of the seeded database.\<close>

theorem reference_tables_and_other_books_kept_witness:
  "authors (snd (handle (initialize source_order empty_db) (DeleteBooks 2))) = authors (initialize source_order empty_db) \<and>
   genres (snd (handle (initialize source_order empty_db) (DeleteBooks 2))) = genres (initialize source_order empty_db) \<and>
   map b_bookid (books (snd (put_books (initialize source_order empty_db) 2 (animal_farm 112)))) = [1, 2, 3, 4] \<and>
   map b_bookid (books (snd (delete_books (initialize source_order empty_db) 2))) = [1, 3, 4] \<and>
   length (filter (\<lambda>b. b_bookid b = 2) (books (initialize source_order empty_db))) \<le> 1"
proof -
  have ids: "map b_bookid (books (initialize source_order empty_db)) = [1, 2, 3, 4]"
    unfolding initialize_empty by (simp add: seeded_eval)
  have pk: "pk_ok (initialize source_order empty_db)"
    unfolding initialize_empty by (rule pk_ok_seeded)
  have f: "map b_bookid (filter (\<lambda>b. b_bookid b \<noteq> 2) (books (initialize source_order empty_db))) = [1, 3, 4]"
    unfolding initialize_empty by (simp add: seeded_eval)
  from reference_tables_and_other_books_kept[where db = "initialize source_order empty_db"
      and r = "DeleteBooks 2" and ident = 2 and bd = "animal_farm 112" and order = source_order]
    ids pk f
  show ?thesis by simp
qed

subsection \<open>C10: a field that is present and falsy\<close>

text \<open>
  Claim C10. In \<^verbatim>\<open>src/index.js\<close> and in the \<^verbatim>\<open>better-sqlite3\<close> version, a body with all
  five fields present, of which one is \<^verbatim>\<open>0\<close> or \<^verbatim>\<open>""\<close>, makes \<^verbatim>\<open>POST /books\<close> and
  \<^verbatim>\<open>PUT /books/:id\<close> answer 400 with \<^verbatim>\<open>All fields are required\<close> and leave the database
  as it was.
\<close>

theorem falsy_field_rejected:
  assumes "title bd = Some t" "authorid bd = Some a" "genreid bd = Some g" "pages bd = Some p"
    "publishedDate bd = Some d"
    and "t = [] \<or> a = 0 \<or> g = 0 \<or> p = 0 \<or> d = []"
  shows "post_books db bd = (Response 400 (JObj [(''error'', JStr ''All fields are required'')]), db) \<and>
         put_books db ident bd = (Response 400 (JObj [(''error'', JStr ''All fields are required'')]), db) \<and>
         post_books_v2 db bd = (Response 400 (JObj [(''error'', JStr ''All fields are required'')]), db) \<and>
         put_books_v2 db ident bd = (Response 400 (JObj [(''error'', JStr ''All fields are required'')]), db)"
proof -
  from assms have "title bd = Some [] \<or> authorid bd = Some 0 \<or> genreid bd = Some 0 \<or>
     pages bd = Some 0 \<or> publishedDate bd = Some []" by auto
  then have "\<not> truthy_str (title bd) \<or> \<not> truthy_num (authorid bd) \<or> \<not> truthy_num (genreid bd)
         \<or> \<not> truthy_num (pages bd) \<or> \<not> truthy_str (publishedDate bd)"
    by (intro check_rejects) auto
  then show ?thesis
    by (simp add: post_books_def put_books_def post_books_v2_def put_books_v2_def errorResponse_def)
qed

text \<open>The theorem for a book of 0 pages.\<close>

theorem falsy_field_rejected_witness:
  "post_books (initialize source_order empty_db) (animal_farm 0) =
     (Response 400 (JObj [(''error'', JStr ''All fields are required'')]), initialize source_order empty_db) \<and>
   put_books (initialize source_order empty_db) 2 (animal_farm 0) =
     (Response 400 (JObj [(''error'', JStr ''All fields are required'')]), initialize source_order empty_db)"
  using falsy_field_rejected[of "animal_farm 0" "''Animal Farm''" 2 2 0 "''1945-08-17''"
      "initialize source_order empty_db" 2]
  by (simp add: animal_farm_def)

end
